theory Spec2Isabelle
  imports Main "HOL-Library.Sublist"
begin

section \<open>Strings and characters\<close>

text \<open>
  JavaScript strings are modelled as HOL strings. A \<^typ>\<open>char\<close> stands for one code unit
  below 256; code units above that (among them the line separators U+2028 and U+2029 and
  the wide Unicode spaces) are outside the model.
\<close>

definition LF :: char where "LF = CHR 0x0A"
definition CR :: char where "CR = CHR 0x0D"
definition ESC :: char where "ESC = CHR 0x1B"

text \<open>The class \<open>\d\<close>.\<close>

definition is_digit :: "char \<Rightarrow> bool" where
  "is_digit c = (c \<in> set ''0123456789'')"

text \<open>The class \<open>\w\<close>.\<close>

definition is_word :: "char \<Rightarrow> bool" where
  "is_word c = (c \<in> set ''abcdefghijklmnopqrstuvwxyzABCDEFGHIJKLMNOPQRSTUVWXYZ0123456789_'')"

text \<open>The class \<open>\s\<close>: tab, line feed, vertical tab, form feed, carriage return, space,
  no-break space.\<close>

definition is_space :: "char \<Rightarrow> bool" where
  "is_space c = (c \<in> set [CHR 0x09, CHR 0x0A, CHR 0x0B, CHR 0x0C, CHR 0x0D, CHR 0x20, CHR 0xA0])"

text \<open>The atom \<open>.\<close> (no \<open>s\<close> flag): every character but a line terminator.\<close>

definition is_dot :: "char \<Rightarrow> bool" where
  "is_dot c = (c \<noteq> LF \<and> c \<noteq> CR)"

text \<open>The class \<open>[\w-.]\<close>: after a class escape the hyphen is a literal hyphen.\<close>

definition is_word_dash_dot :: "char \<Rightarrow> bool" where
  "is_word_dash_dot c = (is_word c \<or> c = CHR ''-'' \<or> c = CHR ''.'')"

text \<open>\<open>String.prototype.trim\<close>: white space and line terminators go from both ends.\<close>

definition trim :: "string \<Rightarrow> string" where
  "trim s = rev (dropWhile is_space (rev (dropWhile is_space s)))"

text \<open>\<open>String.prototype.startsWith\<close>.\<close>

definition startsWith :: "string \<Rightarrow> string \<Rightarrow> bool" where
  "startsWith s p = (take (length p) s = p)"

text \<open>
  \<open>parseInt\<close> without a radix, on the strings this program gives it: the capture of a
  \<open>\d+\<close> group. The decimal value of the leading digits is returned, and \<open>None\<close>
  stands for NaN (no leading digit). Sign, leading white space and the \<open>0x\<close> prefix cannot
  occur in such a capture and are not modelled. The numbers are compared only with
  16, 17, 14, 1, 2 and 10, so the rounding of a very long digit string to a double
  does not change any comparison, and the value is kept as a natural number.
\<close>

definition digit_val :: "char \<Rightarrow> nat" where
  "digit_val c = of_char c - 48"

definition decimal :: "string \<Rightarrow> nat" where
  "decimal ds = foldl (\<lambda>n c. 10 * n + digit_val c) 0 ds"

definition parseInt :: "string option \<Rightarrow> nat option" where
  "parseInt v =
     (case v of
        None \<Rightarrow> None
      | Some s \<Rightarrow>
          (let ds = takeWhile is_digit s
           in if ds = [] then None else Some (decimal ds)))"

text \<open>Comparisons of a number that may be NaN with a constant: with NaN they are false.\<close>

definition num_lt :: "nat option \<Rightarrow> nat \<Rightarrow> bool" where
  "num_lt a k = (case a of None \<Rightarrow> False | Some n \<Rightarrow> n < k)"

definition num_ge :: "nat option \<Rightarrow> nat \<Rightarrow> bool" where
  "num_ge a k = (case a of None \<Rightarrow> False | Some n \<Rightarrow> k \<le> n)"

definition num_eq :: "nat option \<Rightarrow> nat \<Rightarrow> bool" where
  "num_eq a k = (case a of None \<Rightarrow> False | Some n \<Rightarrow> n = k)"

text \<open>Truthiness of a value that is a string, \<open>undefined\<close> or \<open>null\<close>.\<close>

definition truthy :: "string option \<Rightarrow> bool" where
  "truthy v = (case v of None \<Rightarrow> False | Some s \<Rightarrow> s \<noteq> [])"

section \<open>Regular expressions\<close>

text \<open>
  The regular expressions of the script, as data. Every quantifier in them (\<open>*\<close>, \<open>+\<close>,
  \<open>?\<close>) is applied to a single-character atom, so the quantifiers take a character class.
  \<open>Grp n r\<close> is the \<open>n\<close>-th capturing group.
\<close>

datatype re =
    Eps
  | Cls "char \<Rightarrow> bool"
  | Star "char \<Rightarrow> bool"
  | Plus "char \<Rightarrow> bool"
  | Opt "char \<Rightarrow> bool"
  | Bol
  | Eol
  | Grp nat re
  | Seq re re
  | Alt re re

definition Chr :: "char \<Rightarrow> re" where
  "Chr c = Cls (\<lambda>x. x = c)"

fun seqs :: "re list \<Rightarrow> re" where
  "seqs [] = Eps"
| "seqs (r # rs) = Seq r (seqs rs)"

definition Lit :: "string \<Rightarrow> re" where
  "Lit s = seqs (map Chr s)"

text \<open>
  A matcher state: the position in the input, the input from there on, and the captures
  made so far (newest first).
\<close>

type_synonym mstate = "nat \<times> string \<times> (nat \<times> string) list"

text \<open>
  The greedy star of a class: all the positions it can stop at, the farthest first.
\<close>

fun star :: "(char \<Rightarrow> bool) \<Rightarrow> nat \<Rightarrow> string \<Rightarrow> (nat \<times> string) list" where
  "star p pos [] = [(pos, [])]"
| "star p pos (c # cs) = (if p c then star p (Suc pos) cs else []) @ [(pos, c # cs)]"

text \<open>
  The backtracking matcher: all the ways the expression matches at the state, in the order
  a backtracking engine tries them. The first element is the match the engine reports.
  There is no \<open>m\<close> flag in the script: \<open>^\<close> holds at position 0 only, \<open>$\<close> at the end
  of the input only.
\<close>

fun rmatch :: "re \<Rightarrow> mstate \<Rightarrow> mstate list" where
  "rmatch Eps st = [st]"
| "rmatch (Cls p) (pos, rest, caps) =
     (case rest of
        [] \<Rightarrow> []
      | c # cs \<Rightarrow> if p c then [(Suc pos, cs, caps)] else [])"
| "rmatch (Star p) (pos, rest, caps) = map (\<lambda>(e, r). (e, r, caps)) (star p pos rest)"
| "rmatch (Plus p) (pos, rest, caps) =
     (case rest of
        [] \<Rightarrow> []
      | c # cs \<Rightarrow> if p c then map (\<lambda>(e, r). (e, r, caps)) (star p (Suc pos) cs) else [])"
| "rmatch (Opt p) (pos, rest, caps) =
     (case rest of
        [] \<Rightarrow> []
      | c # cs \<Rightarrow> if p c then [(Suc pos, cs, caps)] else []) @ [(pos, rest, caps)]"
| "rmatch Bol (pos, rest, caps) = (if pos = 0 then [(pos, rest, caps)] else [])"
| "rmatch Eol (pos, rest, caps) = (if rest = [] then [(pos, rest, caps)] else [])"
| "rmatch (Grp n r) (pos, rest, caps) =
     map (\<lambda>(e, r', caps'). (e, r', (n, take (e - pos) rest) # caps'))
       (rmatch r (pos, rest, caps))"
| "rmatch (Seq r1 r2) st = concat (map (rmatch r2) (rmatch r1 st))"
| "rmatch (Alt r1 r2) st = rmatch r1 st @ rmatch r2 st"

text \<open>
  \<open>RegExp.prototype.exec\<close> without the \<open>g\<close> and \<open>y\<close> flags: the first start position, from
  the left, at which the expression matches.
\<close>

fun exec_from :: "re \<Rightarrow> nat \<Rightarrow> string \<Rightarrow> mstate option" where
  "exec_from r pos [] =
     (case rmatch r (pos, [], []) of [] \<Rightarrow> None | m # _ \<Rightarrow> Some m)"
| "exec_from r pos (c # cs) =
     (case rmatch r (pos, c # cs, []) of
        [] \<Rightarrow> exec_from r (Suc pos) cs
      | m # _ \<Rightarrow> Some m)"

definition re_exec :: "re \<Rightarrow> string \<Rightarrow> mstate option" where
  "re_exec r s = exec_from r 0 s"

text \<open>\<open>match[n]\<close>: the capture of group \<open>n\<close>, \<open>None\<close> for \<open>undefined\<close>.\<close>

definition group :: "mstate \<Rightarrow> nat \<Rightarrow> string option" where
  "group m n = map_of (snd (snd m)) n"

text \<open>
  \<open>RegExp.prototype.test\<close>. Its argument is converted to a string first, and
  \<open>undefined\<close> becomes the string \<open>undefined\<close>.
\<close>

definition toString :: "string option \<Rightarrow> string" where
  "toString v = (case v of None \<Rightarrow> ''undefined'' | Some s \<Rightarrow> s)"

definition re_test :: "re \<Rightarrow> string option \<Rightarrow> bool" where
  "re_test r v = (re_exec r (toString v) \<noteq> None)"

text \<open>
  \<open>String.prototype.split\<close> with a regular expression that has no capturing group and
  no limit. \<open>p\<close> is where the current piece starts, \<open>q\<close> the position looked at, \<open>cur\<close>
  the piece read so far, and \<open>skip\<close> counts the characters of a separator still to pass.
  A match that ends at \<open>p\<close> (an empty match at the start of a piece) does not split.
\<close>

fun split_from :: "re \<Rightarrow> nat \<Rightarrow> nat \<Rightarrow> string \<Rightarrow> nat \<Rightarrow> string \<Rightarrow> string list" where
  "split_from r p q cur skip [] = [cur]"
| "split_from r p q cur skip (c # cs) =
     (if 0 < skip then split_from r p (Suc q) cur (skip - 1) cs
      else
        (case rmatch r (q, c # cs, []) of
           [] \<Rightarrow> split_from r p (Suc q) (cur @ [c]) 0 cs
         | (e, _) # _ \<Rightarrow>
             if e = p then split_from r p (Suc q) (cur @ [c]) 0 cs
             else if e = q then cur # split_from r q (Suc q) [c] 0 cs
             else cur # split_from r e (Suc q) [] (e - q - 1) cs))"

definition split :: "re \<Rightarrow> string \<Rightarrow> string list" where
  "split r s =
     (if s = [] then (if rmatch r (0, [], []) = [] then [[]] else [])
      else split_from r 0 0 [] 0 s)"

text \<open>Number to string, for the exit status that is appended to a message.\<close>

fun string_of_nat :: "nat \<Rightarrow> string" where
  "string_of_nat n =
     (if n < 10 then [char_of (48 + n)]
      else string_of_nat (n div 10) @ [char_of (48 + n mod 10)])"

declare string_of_nat.simps [simp del]

definition string_of_int :: "int \<Rightarrow> string" where
  "string_of_int i =
     (if i < 0 then CHR ''-'' # string_of_nat (nat (- i)) else string_of_nat (nat i))"

section \<open>The host and the state of a run\<close>

text \<open>
  What the script reads from its host. \<open>path_join\<close> is \<open>path.join\<close> on string
  arguments, \<open>child\<close> is the result of a child process given the calls made before it.
  \<open>readFile\<close> is \<open>None\<close> where \<open>fs.readFileSync\<close> throws (no such file).
\<close>

datatype call =
    ExecSync string
  | SpawnSync string "string list" "string option"
  | ExecFileSync string "string list"

record proc_result =
  p_error :: bool
  p_status :: "int option"
  p_stdout :: string

record world =
  node_version :: string
  platform :: string
  environ :: "string \<Rightarrow> string option"
  existsSync :: "string \<Rightarrow> bool"
  readFile :: "string \<Rightarrow> string option"
  dirname :: string
  path_join :: "string list \<Rightarrow> string"
  child :: "call list \<Rightarrow> call \<Rightarrow> proc_result"

datatype console_msg = ConsoleError string | ConsoleWarn string

text \<open>The state of a run: the flag \<open>err\<close>, the lines printed, the child processes run.\<close>

record state =
  err :: bool
  out :: "console_msg list"
  calls :: "call list"

datatype exn = TypeError | FsError | ChildProcessError

datatype 'a result = Ok 'a | Throw exn

definition console_error :: "string \<Rightarrow> state \<Rightarrow> state" where
  "console_error msg s = s\<lparr>out := out s @ [ConsoleError msg]\<rparr>"

definition console_warn :: "string \<Rightarrow> state \<Rightarrow> state" where
  "console_warn msg s = s\<lparr>out := out s @ [ConsoleWarn msg]\<rparr>"

text \<open>The escape sequences around the messages: \<open>\033[1;31m\<close> and \<open>\033[0;0m\<close>.\<close>

definition red :: "string \<Rightarrow> string" where
  "red msg = ESC # ''[1;31m'' @ msg @ ESC # ''[0;0m''"

text \<open>
  The synchronous child process calls. \<open>spawnSync\<close> returns the result whatever it is;
  \<open>execSync\<close> and \<open>execFileSync\<close> throw when the child could not be run or did not exit
  with status 0, and return its standard output otherwise.
\<close>

definition run_child :: "world \<Rightarrow> call \<Rightarrow> state \<Rightarrow> proc_result \<times> state" where
  "run_child w c s = (child w (calls s) c, s\<lparr>calls := calls s @ [c]\<rparr>)"

definition failed :: "proc_result \<Rightarrow> bool" where
  "failed r = (p_error r \<or> p_status r \<noteq> Some 0)"

definition spawnSync ::
  "world \<Rightarrow> string \<Rightarrow> string list \<Rightarrow> string option \<Rightarrow> state \<Rightarrow> proc_result \<times> state" where
  "spawnSync w cmd args cwd s = run_child w (SpawnSync cmd args cwd) s"

definition execSync :: "world \<Rightarrow> string \<Rightarrow> state \<Rightarrow> string result \<times> state" where
  "execSync w cmd s =
     (let (r, s') = run_child w (ExecSync cmd) s
      in if failed r then (Throw ChildProcessError, s') else (Ok (p_stdout r), s'))"

definition execFileSync ::
  "world \<Rightarrow> string \<Rightarrow> string list \<Rightarrow> state \<Rightarrow> string result \<times> state" where
  "execFileSync w file args s =
     (let (r, s') = run_child w (ExecFileSync file args) s
      in if failed r then (Throw ChildProcessError, s') else (Ok (p_stdout r), s'))"

section \<open>The version gates and the invoker check\<close>

text \<open>The expression \<open>/^(\d+)\.(\d+)\.(\d+)/\<close>.\<close>

definition version_re :: re where
  "version_re =
     seqs [Bol, Grp 1 (Plus is_digit), Chr CHR ''.'', Grp 2 (Plus is_digit), Chr CHR ''.'',
           Grp 3 (Plus is_digit)]"

text \<open>
  Lines 7 to 18. Where the expression does not match, \<open>nodeVersion\<close> is \<open>null\<close> and
  \<open>nodeVersion[1]\<close> throws a TypeError.
\<close>

definition node_gate :: "world \<Rightarrow> state \<Rightarrow> unit result \<times> state" where
  "node_gate w s =
     (case re_exec version_re (node_version w) of
        None \<Rightarrow> (Throw TypeError, s)
      | Some nodeVersion \<Rightarrow>
          (let majorNodeVersion = parseInt (group nodeVersion 1);
               minorNodeVersion = parseInt (group nodeVersion 2);
               patchNodeVersion = parseInt (group nodeVersion 3);
               s1 = (if num_lt majorNodeVersion 16
                        \<or> (num_eq majorNodeVersion 16 \<and> num_lt minorNodeVersion 14)
                     then (console_error
                             (red ''*** Please use node.js versions >=16.14.x and <17.'') s)
                            \<lparr>err := True\<rparr>
                     else s);
               s2 = (if num_ge majorNodeVersion 17
                     then console_warn
                            (red ''*** Warning: Versions of node.js >= 17 have not been tested.'')
                            s1
                     else s1)
           in (Ok (), s2)))"

text \<open>Lines 23 to 38.\<close>

definition yarn_gate :: "world \<Rightarrow> state \<Rightarrow> unit result \<times> state" where
  "yarn_gate w s =
     (case execSync w ''yarn -v'' s of
        (Throw e, s') \<Rightarrow> (Throw e, s')
      | (Ok output, s') \<Rightarrow>
          (let yarnVersion = trim output
           in case re_exec version_re yarnVersion of
                None \<Rightarrow> (Throw TypeError, s')
              | Some parsedYarnVersion \<Rightarrow>
                  (let majorYarnVersion = parseInt (group parsedYarnVersion 1);
                       minorYarnVersion = parseInt (group parsedYarnVersion 2);
                       patchYarnVersion = parseInt (group parsedYarnVersion 3)
                   in if num_lt majorYarnVersion 1
                         \<or> (num_eq majorYarnVersion 1
                             \<and> (num_lt minorYarnVersion 10
                                 \<or> (num_eq minorYarnVersion 10 \<and> num_lt patchYarnVersion 1)))
                         \<or> num_ge majorYarnVersion 2
                      then (Ok (), (console_error
                                      (red ''*** Please use yarn >=1.10.1 and <2.'') s')
                                     \<lparr>err := True\<rparr>)
                      else (Ok (), s'))))"

text \<open>The expression \<open>/yarn[\w-.]*\.c?js$|yarnpkg$/\<close>.\<close>

definition invoker_re :: re where
  "invoker_re =
     Alt (seqs [Lit ''yarn'', Star is_word_dash_dot, Chr CHR ''.'', Opt (\<lambda>c. c = CHR ''c''),
                Lit ''js'', Eol])
         (seqs [Lit ''yarnpkg'', Eol])"

text \<open>Lines 40 to 43.\<close>

definition invoker_check :: "world \<Rightarrow> state \<Rightarrow> state" where
  "invoker_check w s =
     (if \<not> re_test invoker_re (environ w ''npm_execpath'')
      then (console_error (red ''*** Please use yarn to install dependencies.'') s)
             \<lparr>err := True\<rparr>
      else s)"

section \<open>Toolchain discovery\<close>

text \<open>
  \<open>findAvailableVSPathForVersion\<close>: the loop over the editions, then the function.
  Template literals concatenate; \<open>path.join\<close> is the host's.
\<close>

definition vsTypes :: "string list" where
  "vsTypes = [''Enterprise'', ''Professional'', ''Community'', ''Preview'', ''BuildTools'']"

fun firstExistingType :: "world \<Rightarrow> string \<Rightarrow> string list \<Rightarrow> string option" where
  "firstExistingType w vsPath [] = None"
| "firstExistingType w vsPath (vsType # rest) =
     (let combined = path_join w [vsPath, vsType]
      in if existsSync w combined then Some combined
         else firstExistingType w vsPath rest)"

definition findAvailableVSPathForVersion ::
  "world \<Rightarrow> string option \<Rightarrow> string \<Rightarrow> string option" where
  "findAvailableVSPathForVersion w programFilesPath version =
     (case programFilesPath of
        None \<Rightarrow> None
      | Some pf \<Rightarrow>
          if pf = [] then None
          else firstExistingType w (pf @ ''/Microsoft Visual Studio/'' @ version) vsTypes)"

text \<open>
  \<open>findSupportedVisualStudioVersion\<close>: the inner loop over the two Program Files roots,
  the outer loop over the versions, then the function.
\<close>

definition supportedVersions :: "string list" where
  "supportedVersions = [''2022'', ''2019'', ''2017'']"

fun firstInRoots :: "world \<Rightarrow> string \<Rightarrow> string option list \<Rightarrow> string option" where
  "firstInRoots w version [] = None"
| "firstInRoots w version (path # rest) =
     (let vsPath = findAvailableVSPathForVersion w path version
      in if truthy vsPath then vsPath else firstInRoots w version rest)"

fun firstSupported :: "world \<Rightarrow> string list \<Rightarrow> string option" where
  "firstSupported w [] = None"
| "firstSupported w (version # rest) =
     (let vsPath = environ w (''vs'' @ version @ ''_install'');
          programFiles86Path = environ w ''ProgramFiles(x86)'';
          programFiles64Path = environ w ''ProgramFiles''
      in if truthy vsPath \<and> (case vsPath of None \<Rightarrow> False | Some p \<Rightarrow> existsSync w p)
         then vsPath
         else (case firstInRoots w version [programFiles64Path, programFiles86Path] of
                 Some found \<Rightarrow> Some found
               | None \<Rightarrow> firstSupported w rest))"

definition findSupportedVisualStudioVersion :: "world \<Rightarrow> string option" where
  "findSupportedVisualStudioVersion w = firstSupported w supportedVersions"

section \<open>Spectre mode\<close>

text \<open>
  \<open>enableSpectreMode\<close>. \<open>path.join\<close> checks that each argument is a string and throws a
  TypeError otherwise, so a \<open>null\<close> path (here \<open>None\<close>) throws.
\<close>

definition enableSpectreMode :: "world \<Rightarrow> string option \<Rightarrow> state \<Rightarrow> unit result \<times> state" where
  "enableSpectreMode w vsPath s =
     (case vsPath of
        None \<Rightarrow> (Throw TypeError, s)
      | Some vs \<Rightarrow>
          (let auxPath = path_join w [vs, ''VC/Auxiliary/Build/vcvarsall.bat'']
           in if \<not> existsSync w auxPath
              then (Ok (),
                    console_error
                      (red (''*** vcvarsall.bat not found. Please check ''
                            @ ''https://github.com/microsoft/vscode/wiki/How-to-Contribute#prerequisites.''))
                      s)
              else
                (let (proc, s1) = spawnSync w auxPath [''-vcvars_spectre_libs=spectre_mode''] None s
                 in case p_status proc of
                      None \<Rightarrow> (Ok (), s1)
                    | Some status \<Rightarrow>
                        if status \<noteq> 0
                        then (Ok (),
                              console_error
                                (''vcvarsall.bat returned status '' @ string_of_int status) s1)
                        else (Ok (), s1))))"

section \<open>The header installer\<close>

record header_info =
  disturl :: string
  target :: string

text \<open>The expressions \<open>/\s*disturl\s*\"(.*)\"\s*$/\<close> and \<open>/\s*target\s*\"(.*)\"\s*$/\<close>.\<close>

definition disturl_re :: re where
  "disturl_re =
     seqs [Star is_space, Lit ''disturl'', Star is_space, Chr (CHR 0x22),
           Grp 1 (Star is_dot), Chr (CHR 0x22), Star is_space, Eol]"

definition target_re :: re where
  "target_re =
     seqs [Star is_space, Lit ''target'', Star is_space, Chr (CHR 0x22),
           Grp 1 (Star is_dot), Chr (CHR 0x22), Star is_space, Eol]"

text \<open>The separator \<open>/\r\n?/g\<close> of the lines of a config file.\<close>

definition line_sep_re :: re where
  "line_sep_re = seqs [Chr CR, Opt (\<lambda>c. c = LF)]"

text \<open>
  \<open>getHeaderInfo\<close>: the loop over the lines with the two variables, then the function on
  the text of the file, then the function on the file's name.
\<close>

fun scanLines ::
  "string list \<Rightarrow> string option \<Rightarrow> string option \<Rightarrow> string option \<times> string option" where
  "scanLines [] d t = (d, t)"
| "scanLines (line # rest) d t =
     (let d' = (case re_exec disturl_re line of None \<Rightarrow> d | Some m \<Rightarrow> group m 1);
          t' = (case re_exec target_re line of None \<Rightarrow> t | Some m \<Rightarrow> group m 1)
      in scanLines rest d' t')"

definition headerInfoOfText :: "string \<Rightarrow> header_info option" where
  "headerInfoOfText text =
     (case scanLines (split line_sep_re text) None None of
        (Some d, Some t) \<Rightarrow> Some \<lparr>disturl = d, target = t\<rparr>
      | _ \<Rightarrow> None)"

definition getHeaderInfo :: "world \<Rightarrow> string \<Rightarrow> header_info option result" where
  "getHeaderInfo w rcFile =
     (case readFile w rcFile of
        None \<Rightarrow> Throw FsError
      | Some text \<Rightarrow> Ok (headerInfoOfText text))"

text \<open>
  The set of installed versions: the lines of the listing that do not start with
  \<open>gyp info\<close>.
\<close>

definition installedVersions :: "string \<Rightarrow> string set" where
  "installedVersions result =
     set (map (\<lambda>value. value)
            (filter (\<lambda>line. \<not> startsWith line ''gyp info'') (split (Chr LF) result)))"

text \<open>One of the two guarded installs at the end of \<open>installHeaders\<close>.\<close>

definition installIfMissing ::
  "world \<Rightarrow> string \<Rightarrow> string set \<Rightarrow> header_info option \<Rightarrow> state \<Rightarrow> unit result \<times> state" where
  "installIfMissing w node_gyp versions info s =
     (case info of
        None \<Rightarrow> (Ok (), s)
      | Some h \<Rightarrow>
          if target h \<notin> versions
          then (case execFileSync w node_gyp [''install'', ''--dist-url'', disturl h, target h] s of
                  (Throw e, s') \<Rightarrow> (Throw e, s')
                | (Ok _, s') \<Rightarrow> (Ok (), s'))
          else (Ok (), s))"

definition installHeaders :: "world \<Rightarrow> state \<Rightarrow> unit result \<times> state" where
  "installHeaders w s =
     (let yarn = ''yarn.cmd'';
          (yarnResult, s1) = spawnSync w yarn [''install''] (Some (path_join w [dirname w, ''gyp''])) s
      in if p_error yarnResult \<or> p_status yarnResult \<noteq> Some 0
         then (Ok (), (console_error ''Installing node-gyp failed'' s1)\<lparr>err := True\<rparr>)
         else
           (let node_gyp = path_join w [dirname w, ''gyp'', ''node_modules'', ''.bin'', ''node-gyp.cmd'']
            in case execFileSync w node_gyp [''list''] s1 of
                 (Throw e, s2) \<Rightarrow> (Throw e, s2)
               | (Ok result, s2) \<Rightarrow>
                   (let versions = installedVersions result
                    in case getHeaderInfo w (path_join w [dirname w, ''..'', ''..'', ''.yarnrc'']) of
                         Throw e \<Rightarrow> (Throw e, s2)
                       | Ok local \<Rightarrow>
                           (case getHeaderInfo w
                                   (path_join w [dirname w, ''..'', ''..'', ''remote'', ''.yarnrc'']) of
                              Throw e \<Rightarrow> (Throw e, s2)
                            | Ok remote \<Rightarrow>
                                (case installIfMissing w node_gyp versions local s2 of
                                   (Throw e, s3) \<Rightarrow> (Throw e, s3)
                                 | (Ok _, s3) \<Rightarrow>
                                     installIfMissing w node_gyp versions remote s3)))))"

section \<open>The script\<close>

text \<open>Lines 45 to 55: the Windows branch.\<close>

definition windows_checks :: "world \<Rightarrow> state \<Rightarrow> unit result \<times> state" where
  "windows_checks w s =
     (if platform w = ''win32''
      then
        (let vsPath = findSupportedVisualStudioVersion w;
             s1 = (if \<not> truthy vsPath
                   then (console_error
                           (red (''*** Invalid C/C++ Compiler Toolchain. Please check ''
                                 @ ''https://github.com/microsoft/vscode/wiki/How-to-Contribute#prerequisites.''))
                           s)\<lparr>err := True\<rparr>
                   else s)
         in case enableSpectreMode w vsPath s1 of
              (Throw e, s2) \<Rightarrow> (Throw e, s2)
            | (Ok _, s2) \<Rightarrow> if \<not> err s2 then installHeaders w s2 else (Ok (), s2))
      else (Ok (), s))"

text \<open>
  How the process ends: with an exit status, or with an exception nobody caught.
\<close>

datatype outcome = Exited nat | Uncaught exn

definition initial :: state where
  "initial = \<lparr>err = False, out = [], calls = []\<rparr>"

text \<open>The whole script, from the first line to the last.\<close>

definition main :: "world \<Rightarrow> outcome \<times> state" where
  "main w =
     (case node_gate w initial of
        (Throw e, s1) \<Rightarrow> (Uncaught e, s1)
      | (Ok _, s1) \<Rightarrow>
          (case yarn_gate w s1 of
             (Throw e, s2) \<Rightarrow> (Uncaught e, s2)
           | (Ok _, s2) \<Rightarrow>
               (let s3 = invoker_check w s2
                in case windows_checks w s3 of
                     (Throw e, s4) \<Rightarrow> (Uncaught e, s4)
                   | (Ok _, s4) \<Rightarrow>
                       if err s4 then (Exited 1, console_error [] s4)
                       else (Exited 0, s4))))"

section \<open>Example hosts\<close>

text \<open>
  A simplified \<open>path.join\<close> of a Windows host, for the example hosts only: the arguments
  are joined, both separators split, empty and \<open>.\<close> segments dropped, \<open>..\<close> resolved,
  and the segments put together with backslashes.
\<close>

definition BS :: char where "BS = CHR 0x5C"
definition DQ :: char where "DQ = CHR 0x22"

fun segments :: "string \<Rightarrow> string \<Rightarrow> string list" where
  "segments cur [] = [cur]"
| "segments cur (c # cs) =
     (if c = CHR ''/'' \<or> c = BS then cur # segments [] cs else segments (cur @ [c]) cs)"

fun resolve :: "string list \<Rightarrow> string list \<Rightarrow> string list" where
  "resolve done [] = done"
| "resolve done (seg # rest) =
     (if seg = [] \<or> seg = ''.'' then resolve done rest
      else if seg = ''..'' \<and> done \<noteq> [] then resolve (butlast done) rest
      else resolve (done @ [seg]) rest)"

fun join_with :: "char \<Rightarrow> string list \<Rightarrow> string" where
  "join_with sep [] = []"
| "join_with sep [x] = x"
| "join_with sep (x # y # rest) = x @ sep # join_with sep (y # rest)"

definition win32_join :: "string list \<Rightarrow> string" where
  "win32_join parts =
     (let segs = resolve [] (segments [] (join_with BS parts))
      in if segs = [] then ''.'' else join_with BS segs)"

definition ok_result :: "string \<Rightarrow> proc_result" where
  "ok_result text = \<lparr>p_error = False, p_status = Some 0, p_stdout = text\<rparr>"

definition exit_result :: "int \<Rightarrow> proc_result" where
  "exit_result n = \<lparr>p_error = False, p_status = Some n, p_stdout = []\<rparr>"

text \<open>The text of a config file with the two keys, each line ended by \<open>eol\<close>.\<close>

definition rc_text :: "string \<Rightarrow> string \<Rightarrow> string \<Rightarrow> string" where
  "rc_text url version eol =
     ''disturl '' @ [DQ] @ url @ [DQ] @ eol @ ''target '' @ [DQ] @ version @ [DQ] @ eol"

text \<open>
  A Windows host with Node 16.14.2, yarn 1.22.19, Visual Studio 2022 Enterprise with its
  setup script, the headers of 10.0.0 installed, a local config file for 10.0.0, a remote
  one for 12.0.0, and child processes that all succeed.
\<close>

definition host :: world where
  "host =
     \<lparr>node_version = ''16.14.2'',
      platform = ''win32'',
      environ = (\<lambda>k. if k = ''npm_execpath'' then Some ''C:/yarn/bin/yarn.js''
                     else if k = ''ProgramFiles'' then Some ''C:/PF''
                     else if k = ''ProgramFiles(x86)'' then Some ''C:/PF86''
                     else None),
      existsSync =
        (\<lambda>p. p = win32_join [''C:/PF/Microsoft Visual Studio/2022/Enterprise'']
              \<or> p = win32_join [''C:/PF/Microsoft Visual Studio/2022/Enterprise'',
                                 ''VC/Auxiliary/Build/vcvarsall.bat'']),
      readFile =
        (\<lambda>p. if p = win32_join [''C:/vscode/.yarnrc'']
              then Some (rc_text ''https://example/dist'' ''10.0.0'' [CR, LF])
              else if p = win32_join [''C:/vscode/remote/.yarnrc'']
              then Some (rc_text ''https://example/remote'' ''12.0.0'' [CR, LF])
              else None),
      dirname = win32_join [''C:/vscode/build/npm''],
      path_join = win32_join,
      child =
        (\<lambda>before c.
           if c = ExecSync ''yarn -v'' then ok_result (''1.22.19'' @ [LF])
           else if c = ExecFileSync
                         (win32_join [''C:/vscode/build/npm/gyp/node_modules/.bin/node-gyp.cmd''])
                         [''list'']
           then ok_result (''gyp info it worked if it ends with ok'' @ [LF] @ ''10.0.0'' @ [LF])
           else ok_result [])\<rparr>"

text \<open>The same host with no Visual Studio anywhere.\<close>

definition host_without_toolchain :: world where
  "host_without_toolchain = host\<lparr>existsSync := (\<lambda>p. False)\<rparr>"

text \<open>The same host whose setup script exits with status 3.\<close>

definition host_setup_fails :: world where
  "host_setup_fails =
     host\<lparr>child := (\<lambda>before c. case c of SpawnSync cmd args cwd \<Rightarrow> exit_result 3
                                         | _ \<Rightarrow> child host before c)\<rparr>"

text \<open>The same host without the local config file.\<close>

definition host_without_local_rc :: world where
  "host_without_local_rc =
     host\<lparr>readFile := (\<lambda>p. if p = win32_join [''C:/vscode/.yarnrc''] then None
                               else readFile host p)\<rparr>"

text \<open>
  The same host with a local config file for 11.0.0, whose headers are not installed and
  whose install exits with status 1.
\<close>

definition host_local_install_fails :: world where
  "host_local_install_fails =
     host\<lparr>readFile :=
            (\<lambda>p. if p = win32_join [''C:/vscode/.yarnrc'']
                  then Some (rc_text ''https://example/dist'' ''11.0.0'' [CR, LF])
                  else readFile host p),
          child :=
            (\<lambda>before c.
               if c = ExecFileSync
                        (win32_join [''C:/vscode/build/npm/gyp/node_modules/.bin/node-gyp.cmd''])
                        [''install'', ''--dist-url'', ''https://example/dist'', ''11.0.0'']
               then exit_result 1
               else child host before c)\<rparr>"

text \<open>The first host with Visual Studio 2019 Community under the 32-bit root as well.\<close>

definition host_two_toolchains :: world where
  "host_two_toolchains =
     host\<lparr>existsSync :=
            (\<lambda>p. existsSync host p
                  \<or> p = win32_join [''C:/PF86/Microsoft Visual Studio/2019/Community''])\<rparr>"

text \<open>The first host with a yarn that prints the given version.\<close>

definition yarn_says :: "string \<Rightarrow> world" where
  "yarn_says v = host\<lparr>child := (\<lambda>before c. ok_result (v @ [LF]))\<rparr>"

text \<open>The first host with the install started through the given path.\<close>

definition invoked_by :: "string \<Rightarrow> world" where
  "invoked_by path =
     host\<lparr>environ := (\<lambda>k. if k = ''npm_execpath'' then Some path else environ host k)\<rparr>"


section \<open>The words of the specification\<close>

text \<open>
  A version string of the form major.minor.patch: three numbers, each a non-empty run of
  digits, with dots between them.
\<close>

definition is_number :: "string \<Rightarrow> bool" where
  "is_number ds = (ds \<noteq> [] \<and> list_all is_digit ds)"

definition version_string :: "string \<Rightarrow> string \<Rightarrow> string \<Rightarrow> string" where
  "version_string a b c = a @ ''.'' @ b @ ''.'' @ c"

text \<open>The order of versions, and the half-open interval from 1.10.1 to 2.0.0.\<close>

fun version_less :: "nat \<times> nat \<times> nat \<Rightarrow> nat \<times> nat \<times> nat \<Rightarrow> bool" where
  "version_less (a, b, c) (a', b', c') =
     (a < a' \<or> (a = a' \<and> (b < b' \<or> (b = b' \<and> c < c'))))"

definition in_yarn_interval :: "nat \<times> nat \<times> nat \<Rightarrow> bool" where
  "in_yarn_interval v = (\<not> version_less v (1, 10, 1) \<and> version_less v (2, 0, 0))"

text \<open>
  A path that ends in a yarn script name (\<open>yarn\<close>, then any run of word characters,
  hyphens and dots, then \<open>.js\<close> or \<open>.cjs\<close>) or in \<open>yarnpkg\<close>.
\<close>

definition ends_in_yarn_script :: "string \<Rightarrow> bool" where
  "ends_in_yarn_script s =
     ((\<exists>before suffix ext.
          s = before @ ''yarn'' @ suffix @ ext
          \<and> list_all is_word_dash_dot suffix
          \<and> (ext = ''.js'' \<or> ext = ''.cjs''))
      \<or> (\<exists>before. s = before @ ''yarnpkg''))"

text \<open>
  Discovery in the words of the specification: the versions in order of preference; for
  each the override if it is set and exists, otherwise the first existing candidate, the
  candidates being the editions in order under the 64-bit root, then under the 32-bit root.
\<close>

definition spec_versions :: "string list" where
  "spec_versions = [''2022'', ''2019'', ''2017'']"

definition spec_editions :: "string list" where
  "spec_editions = [''Enterprise'', ''Professional'', ''Community'', ''Preview'', ''BuildTools'']"

definition spec_roots :: "world \<Rightarrow> string list" where
  "spec_roots w = List.map_filter (environ w) [''ProgramFiles'', ''ProgramFiles(x86)'']"

definition spec_root_candidates :: "world \<Rightarrow> string \<Rightarrow> string \<Rightarrow> string list" where
  "spec_root_candidates w version root =
     map (\<lambda>edition. path_join w [root @ ''/Microsoft Visual Studio/'' @ version, edition])
       spec_editions"

definition spec_candidates :: "world \<Rightarrow> string \<Rightarrow> string list" where
  "spec_candidates w version = concat (map (spec_root_candidates w version) (spec_roots w))"

definition spec_probe :: "world \<Rightarrow> string \<Rightarrow> string option" where
  "spec_probe w version = List.find (existsSync w) (spec_candidates w version)"

definition spec_for_version :: "world \<Rightarrow> string \<Rightarrow> string option" where
  "spec_for_version w version =
     (case environ w (''vs'' @ version @ ''_install'') of
        None \<Rightarrow> spec_probe w version
      | Some p \<Rightarrow> if existsSync w p then Some p else spec_probe w version)"

fun first_some :: "('a \<Rightarrow> 'b option) \<Rightarrow> 'a list \<Rightarrow> 'b option" where
  "first_some f [] = None"
| "first_some f (x # xs) = (case f x of Some y \<Rightarrow> Some y | None \<Rightarrow> first_some f xs)"

definition spec_discovery :: "world \<Rightarrow> string option" where
  "spec_discovery w = first_some (spec_for_version w) spec_versions"

text \<open>
  What holds of every host: the empty path does not exist, \<open>path.join\<close> never returns the
  empty string (it returns \<open>.\<close> instead), and a Windows environment variable that is
  set is not empty.
\<close>

definition plausible_host :: "world \<Rightarrow> bool" where
  "plausible_host w =
     (\<not> existsSync w []
      \<and> (\<forall>parts. path_join w parts \<noteq> [])
      \<and> environ w ''ProgramFiles'' \<noteq> Some []
      \<and> environ w ''ProgramFiles(x86)'' \<noteq> Some [])"





text \<open>
  The install call for a header spec, and the calls a spec asks for given the installed
  versions: none when it is absent or installed, one otherwise.
\<close>

definition install_call :: "string \<Rightarrow> header_info \<Rightarrow> call" where
  "install_call node_gyp h =
     ExecFileSync node_gyp [''install'', ''--dist-url'', disturl h, target h]"

definition wanted :: "string \<Rightarrow> string set \<Rightarrow> header_info option \<Rightarrow> call list" where
  "wanted node_gyp versions info =
     (case info of
        None \<Rightarrow> []
      | Some h \<Rightarrow> if target h \<in> versions then [] else [install_call node_gyp h])"

text \<open>Whether the calls, made one after the other after \<open>before\<close>, all succeed.\<close>

fun all_succeed :: "world \<Rightarrow> call list \<Rightarrow> call list \<Rightarrow> bool" where
  "all_succeed w before [] = True"
| "all_succeed w before (c # cs) =
     (\<not> failed (child w before c) \<and> all_succeed w (before @ [c]) cs)"

section \<open>The invoker check\<close>

lemmas regex_defs =
  version_re_def invoker_re_def disturl_re_def target_re_def line_sep_re_def Lit_def Chr_def
  re_exec_def re_test_def toString_def group_def split_def
  is_digit_def is_word_def is_space_def is_dot_def is_word_dash_dot_def LF_def CR_def

lemma test_undefined: "\<not> re_test invoker_re None"
  by (simp add: regex_defs)

text \<open>
  C10. When \<open>npm_execpath\<close> is not set, the invoker check fails: the flag is set and the
  message is printed. The value \<open>undefined\<close> is tested as the string \<open>undefined\<close>, which
  the expression does not match.
\<close>

theorem invoker_unset_sets_err:
  assumes "environ w ''npm_execpath'' = None"
  shows "err (invoker_check w s)
         \<and> out (invoker_check w s)
             = out s @ [ConsoleError (red ''*** Please use yarn to install dependencies.'')]"
  using assms by (simp add: invoker_check_def test_undefined console_error_def)

theorem invoker_unset_sets_err_witness:
  "environ (host\<lparr>environ := (\<lambda>k. None)\<rparr>) ''npm_execpath'' = None
   \<and> err (invoker_check (host\<lparr>environ := (\<lambda>k. None)\<rparr>) initial)"
  using invoker_unset_sets_err [of "host\<lparr>environ := (\<lambda>k. None)\<rparr>" initial]
  by simp

section \<open>Spectre mode\<close>

text \<open>
  C9. Given a toolchain path, \<open>enableSpectreMode\<close> returns normally and leaves the flag
  \<open>err\<close> as it was. When the setup script is missing it only prints the message and runs
  nothing; when the script is there it is run once, and a status other than 0 is only
  printed.
\<close>

theorem enableSpectreMode_keeps_err:
  "fst (enableSpectreMode w (Some vs) s) = Ok ()
   \<and> err (snd (enableSpectreMode w (Some vs) s)) = err s
   \<and> (\<not> existsSync w (path_join w [vs, ''VC/Auxiliary/Build/vcvarsall.bat''])
        \<longrightarrow> snd (enableSpectreMode w (Some vs) s)
            = console_error
                (red (''*** vcvarsall.bat not found. Please check ''
                      @ ''https://github.com/microsoft/vscode/wiki/How-to-Contribute#prerequisites.''))
                s)
   \<and> (existsSync w (path_join w [vs, ''VC/Auxiliary/Build/vcvarsall.bat''])
        \<longrightarrow> calls (snd (enableSpectreMode w (Some vs) s))
              = calls s @ [SpawnSync (path_join w [vs, ''VC/Auxiliary/Build/vcvarsall.bat''])
                             [''-vcvars_spectre_libs=spectre_mode''] None]
            \<and> (\<forall>n. p_status (child w (calls s)
                                (SpawnSync (path_join w [vs, ''VC/Auxiliary/Build/vcvarsall.bat''])
                                   [''-vcvars_spectre_libs=spectre_mode''] None)) = Some n
                     \<longrightarrow> n \<noteq> 0
                     \<longrightarrow> out (snd (enableSpectreMode w (Some vs) s))
                         = out s @ [ConsoleError
                                      (''vcvarsall.bat returned status '' @ string_of_int n)]))"
  by (simp add: enableSpectreMode_def spawnSync_def run_child_def console_error_def Let_def
           split: option.splits)

theorem enableSpectreMode_keeps_err_witness:
  "err (snd (enableSpectreMode host_setup_fails
               (Some (win32_join [''C:/PF/Microsoft Visual Studio/2022/Enterprise''])) initial))
     = False
   \<and> out (snd (enableSpectreMode host_setup_fails
                 (Some (win32_join [''C:/PF/Microsoft Visual Studio/2022/Enterprise''])) initial))
     = [ConsoleError ''vcvarsall.bat returned status 3'']"
proof -
  let ?vs = "win32_join [''C:/PF/Microsoft Visual Studio/2022/Enterprise'']"
  let ?aux = "path_join host_setup_fails [?vs, ''VC/Auxiliary/Build/vcvarsall.bat'']"
  have there: "existsSync host_setup_fails ?aux"
    by code_simp
  have status: "p_status (child host_setup_fails (calls initial)
                   (SpawnSync ?aux [''-vcvars_spectre_libs=spectre_mode''] None)) = Some 3"
    by code_simp
  have shown: "string_of_int 3 = ''3''"
    by code_simp
  have start: "err initial = False" "out initial = []"
    by (simp_all add: initial_def)
  from enableSpectreMode_keeps_err [of host_setup_fails ?vs initial] there status
  show ?thesis
    by (simp add: shown start)
qed

section \<open>A host without a toolchain\<close>

lemma enableSpectreMode_null: "enableSpectreMode w None s = (Throw TypeError, s)"
  by (simp add: enableSpectreMode_def)

text \<open>
  C1. On Windows, when discovery finds nothing, the flag is set and the message printed,
  and then \<open>enableSpectreMode\<close> is called with \<open>null\<close>: \<open>path.join\<close> throws a TypeError
  that nothing catches. The headers are not installed, but the script does not go on to
  its last lines: the closing empty line is not printed and \<open>process.exit(1)\<close> is not
  reached.
\<close>

theorem no_toolchain_uncaught:
  assumes "platform w = ''win32''"
    and "findSupportedVisualStudioVersion w = None"
    and "node_gate w initial = (Ok (), s1)"
    and "yarn_gate w s1 = (Ok (), s2)"
  shows "main w =
           (Uncaught TypeError,
            (console_error
               (red (''*** Invalid C/C++ Compiler Toolchain. Please check ''
                     @ ''https://github.com/microsoft/vscode/wiki/How-to-Contribute#prerequisites.''))
               (invoker_check w s2))\<lparr>err := True\<rparr>)"
  using assms
  by (simp add: main_def windows_checks_def enableSpectreMode_null truthy_def Let_def)

theorem no_toolchain_uncaught_witness:
  "main host_without_toolchain =
     (Uncaught TypeError,
      \<lparr>err = True,
       out = [ConsoleError
                (red (''*** Invalid C/C++ Compiler Toolchain. Please check ''
                      @ ''https://github.com/microsoft/vscode/wiki/How-to-Contribute#prerequisites.''))],
       calls = [ExecSync ''yarn -v'']\<rparr>)"
proof -
  let ?after = "\<lparr>err = False, out = [], calls = [ExecSync ''yarn -v'']\<rparr>"
  have windows: "platform host_without_toolchain = ''win32''"
    by code_simp
  have absent: "findSupportedVisualStudioVersion host_without_toolchain = None"
    by code_simp
  have node: "node_gate host_without_toolchain initial = (Ok (), initial)"
    by code_simp
  have yarn: "yarn_gate host_without_toolchain initial = (Ok (), ?after)"
    by code_simp
  have invoker: "invoker_check host_without_toolchain ?after = ?after"
    by code_simp
  from no_toolchain_uncaught [OF windows absent node yarn]
  show ?thesis
    by (simp add: invoker console_error_def)
qed

section \<open>Reading a config file\<close>

text \<open>
  C2. The lines of a config file are split at \<open>\r\n\<close> or \<open>\r\<close>, never at a lone
  \<open>\n\<close>. A file with both keys and LF line endings is one line to the loop; the
  expressions end in \<open>$\<close> and \<open>.\<close> does not pass a line feed, so only the key of the
  last line is found and the result is \<open>undefined\<close>. The same two lines with CRLF endings
  give the pair.
\<close>

theorem getHeaderInfo_lf_undefined:
  "headerInfoOfText (rc_text ''https://example/dist'' ''12.3.4'' [LF]) = None
   \<and> split line_sep_re (rc_text ''https://example/dist'' ''12.3.4'' [LF])
       = [rc_text ''https://example/dist'' ''12.3.4'' [LF]]
   \<and> headerInfoOfText (rc_text ''https://example/dist'' ''12.3.4'' [CR, LF])
       = Some \<lparr>disturl = ''https://example/dist'', target = ''12.3.4''\<rparr>"
  by code_simp

theorem getHeaderInfo_lf_undefined_witness:
  "getHeaderInfo (host\<lparr>readFile := (\<lambda>p. Some (rc_text ''https://example/dist'' ''12.3.4'' [LF]))\<rparr>)
     ''.yarnrc'' = Ok None"
  using getHeaderInfo_lf_undefined
  by (simp add: getHeaderInfo_def)

section \<open>Facts about the matcher\<close>


lemma star_stops:
  "(e, r) \<in> set (star p pos rest) \<Longrightarrow> \<exists>xs. rest = xs @ r \<and> e = pos + length xs \<and> list_all p xs"
proof (induction rest arbitrary: pos)
  case Nil
  then show ?case by simp
next
  case (Cons c cs)
  show ?case
  proof (cases "(e, r) = (pos, c # cs)")
    case True
    then show ?thesis by simp
  next
    case False
    with Cons.prems have "p c" and "(e, r) \<in> set (star p (Suc pos) cs)"
      by (auto split: if_splits)
    from Cons.IH [OF this(2)] obtain xs where "cs = xs @ r" "e = Suc pos + length xs" "list_all p xs"
      by blast
    with \<open>p c\<close> have "c # cs = (c # xs) @ r \<and> e = pos + length (c # xs) \<and> list_all p (c # xs)"
      by simp
    then show ?thesis by blast
  qed
qed

lemma rmatch_Lit:
  "rmatch (Lit l) (pos, rest, caps) =
     (if prefix l rest then [(pos + length l, drop (length l) rest, caps)] else [])"
proof (induction l arbitrary: pos rest)
  case Nil
  then show ?case by (simp add: Lit_def)
next
  case (Cons c cs)
  then show ?case
    by (cases rest) (auto simp: Lit_def Chr_def)
qed

lemma rmatch_Seq_nonempty:
  "rmatch (Seq r1 r2) st \<noteq> [] \<longleftrightarrow> (\<exists>m \<in> set (rmatch r1 st). rmatch r2 m \<noteq> [])"
  by auto


section \<open>Toolchain discovery\<close>

lemma find_append_first:
  "List.find P (xs @ ys) = (case List.find P xs of Some x \<Rightarrow> Some x | None \<Rightarrow> List.find P ys)"
  by (induction xs) simp_all

lemma find_holds: "List.find P xs = Some x \<Longrightarrow> P x"
  by (induction xs) (auto split: if_splits)

lemma firstExistingType_find:
  "firstExistingType w vsPath types
     = List.find (existsSync w) (map (\<lambda>edition. path_join w [vsPath, edition]) types)"
  by (induction types) (simp_all add: Let_def)

lemma found_is_truthy:
  assumes "\<not> existsSync w []" and "List.find (existsSync w) xs = Some x"
  shows "truthy (Some x)"
proof -
  from assms(2) have "existsSync w x" by (rule find_holds)
  with assms(1) have "x \<noteq> []" by auto
  then show ?thesis by (simp add: truthy_def)
qed

lemma findAvailable_root:
  assumes "pf \<noteq> []"
  shows "findAvailableVSPathForVersion w (Some pf) version
           = List.find (existsSync w) (spec_root_candidates w version pf)"
  using assms
  by (simp add: findAvailableVSPathForVersion_def firstExistingType_find
        spec_root_candidates_def vsTypes_def spec_editions_def del: List.find.simps)

lemma findAvailable_unset: "findAvailableVSPathForVersion w None version = None"
  by (simp add: findAvailableVSPathForVersion_def)

lemma firstInRoots_first_some:
  assumes "\<not> existsSync w []" and "Some [] \<notin> set roots"
  shows "firstInRoots w version roots
           = first_some (\<lambda>pf. List.find (existsSync w) (spec_root_candidates w version pf))
               (List.map_filter (\<lambda>root. root) roots)"
  using assms(2)
proof (induction roots)
  case Nil
  then show ?case by (simp add: List.map_filter_def)
next
  case (Cons root roots)
  then have IH: "firstInRoots w version roots
           = first_some (\<lambda>pf. List.find (existsSync w) (spec_root_candidates w version pf))
               (List.map_filter (\<lambda>root. root) roots)"
    by simp
  show ?case
  proof (cases root)
    case None
    with IH show ?thesis
      by (simp add: findAvailable_unset truthy_def List.map_filter_def)
  next
    case (Some pf)
    with Cons.prems have pf: "pf \<noteq> []" by auto
    show ?thesis
    proof (cases "List.find (existsSync w) (spec_root_candidates w version pf)")
      case None
      with IH Some pf show ?thesis
        by (simp add: findAvailable_root truthy_def List.map_filter_def del: List.find.simps)
    next
      case (Some found)
      with found_is_truthy [OF assms(1) this] \<open>root = Some pf\<close> pf show ?thesis
        by (simp add: findAvailable_root List.map_filter_def del: List.find.simps)
    qed
  qed
qed

lemma first_some_find:
  "first_some (\<lambda>x. List.find P (f x)) xs = List.find P (concat (map f xs))"
  by (induction xs) (simp_all add: find_append_first split: option.splits)

lemma firstInRoots_probe:
  assumes "plausible_host w"
  shows "firstInRoots w version [environ w ''ProgramFiles'', environ w ''ProgramFiles(x86)'']
           = spec_probe w version"
proof -
  from assms have none: "\<not> existsSync w []"
    and roots: "Some [] \<notin> set [environ w ''ProgramFiles'', environ w ''ProgramFiles(x86)'']"
    by (auto simp: plausible_host_def)
  have "List.map_filter (\<lambda>root. root) [environ w ''ProgramFiles'', environ w ''ProgramFiles(x86)'']
          = spec_roots w"
    by (simp add: spec_roots_def List.map_filter_def)
  with firstInRoots_first_some [OF none roots, of version] show ?thesis
    by (simp add: first_some_find spec_probe_def spec_candidates_def del: List.find.simps)
qed

lemma firstSupported_first_some:
  assumes "plausible_host w"
  shows "firstSupported w versions = first_some (spec_for_version w) versions"
proof (induction versions)
  case Nil
  then show ?case by simp
next
  case (Cons version versions)
  from assms have none: "\<not> existsSync w []"
    by (simp add: plausible_host_def)
  show ?case
  proof (cases "environ w (''vs'' @ version @ ''_install'')")
    case None
    with Cons.IH show ?thesis
      by (simp add: firstInRoots_probe [OF assms] spec_for_version_def truthy_def Let_def
            del: firstInRoots.simps split: option.splits)
  next
    case (Some p)
    with Cons.IH none show ?thesis
      by (cases "p = []")
         (auto simp: firstInRoots_probe [OF assms] spec_for_version_def truthy_def Let_def
            simp del: firstInRoots.simps split: option.splits)
  qed
qed

lemma discovery_is_spec:
  "plausible_host w \<Longrightarrow> findSupportedVisualStudioVersion w = spec_discovery w"
  by (simp add: findSupportedVisualStudioVersion_def spec_discovery_def supportedVersions_def
        spec_versions_def firstSupported_first_some del: firstSupported.simps first_some.simps)


lemma probe_enterprise:
  assumes "environ w ''ProgramFiles'' = Some pf"
    and "existsSync w (path_join w [pf @ ''/Microsoft Visual Studio/'' @ version, ''Enterprise''])"
  shows "spec_probe w version
           = Some (path_join w [pf @ ''/Microsoft Visual Studio/'' @ version, ''Enterprise''])"
proof -
  let ?enterprise = "path_join w [pf @ ''/Microsoft Visual Studio/'' @ version, ''Enterprise'']"
  obtain rest where first: "spec_root_candidates w version pf = ?enterprise # rest"
    by (simp add: spec_root_candidates_def spec_editions_def)
  from assms(1) obtain roots where roots: "spec_roots w = pf # roots"
    by (simp add: spec_roots_def List.map_filter_def)
  have "spec_candidates w version
          = ?enterprise # (rest @ concat (map (spec_root_candidates w version) roots))"
    by (simp add: spec_candidates_def roots first)
  with assms(2) show ?thesis
    by (simp add: spec_probe_def)
qed

lemma no_override_no_candidate:
  assumes "environ w (''vs'' @ version @ ''_install'') = None"
    and "\<forall>p \<in> set (spec_candidates w version). \<not> existsSync w p"
  shows "spec_for_version w version = None"
  using assms by (simp add: spec_for_version_def spec_probe_def find_None_iff)

text \<open>
  C7. On a plausible host the discovery function is the discovery of the specification:
  versions 2022, 2019, 2017 in this order; for each the override \<open>vs<version>_install\<close> if
  set and existing, otherwise the first existing of \<open>Microsoft Visual Studio/<version>/<edition>\<close>
  under the 64-bit root and then the 32-bit root, editions in the order Enterprise,
  Professional, Community, Preview, BuildTools. With no existing 2022 override and 2022
  Enterprise under the 64-bit root, that path is returned, whatever else exists. With no
  override set and no candidate existing, the result is \<open>null\<close>.
\<close>

theorem discovery_refines_spec:
  assumes "plausible_host w"
  shows "findSupportedVisualStudioVersion w = spec_discovery w
         \<and> (\<forall>pf. (\<forall>p. environ w ''vs2022_install'' = Some p \<longrightarrow> \<not> existsSync w p)
                \<longrightarrow> environ w ''ProgramFiles'' = Some pf
                \<longrightarrow> existsSync w
                      (path_join w [pf @ ''/Microsoft Visual Studio/'' @ ''2022'', ''Enterprise''])
                \<longrightarrow> findSupportedVisualStudioVersion w
                    = Some (path_join w
                              [pf @ ''/Microsoft Visual Studio/'' @ ''2022'', ''Enterprise'']))
         \<and> ((\<forall>version \<in> set spec_versions.
                 environ w (''vs'' @ version @ ''_install'') = None
                 \<and> (\<forall>p \<in> set (spec_candidates w version). \<not> existsSync w p))
              \<longrightarrow> findSupportedVisualStudioVersion w = None)"
proof (intro conjI allI impI)
  show same: "findSupportedVisualStudioVersion w = spec_discovery w"
    using assms by (rule discovery_is_spec)
  {
    fix pf
    let ?enterprise = "path_join w [pf @ ''/Microsoft Visual Studio/'' @ ''2022'', ''Enterprise'']"
    assume override: "\<forall>p. environ w ''vs2022_install'' = Some p \<longrightarrow> \<not> existsSync w p"
      and root: "environ w ''ProgramFiles'' = Some pf"
      and there: "existsSync w ?enterprise"
    from root there have "spec_probe w ''2022'' = Some ?enterprise"
      by (rule probe_enterprise)
    with override have "spec_for_version w ''2022'' = Some ?enterprise"
      by (auto simp: spec_for_version_def split: option.splits)
    then have "spec_discovery w = Some ?enterprise"
      by (simp add: spec_discovery_def spec_versions_def)
    with same show "findSupportedVisualStudioVersion w = Some ?enterprise"
      by simp
  }
  {
    assume nothing_there:
      "\<forall>version \<in> set spec_versions.
          environ w (''vs'' @ version @ ''_install'') = None
          \<and> (\<forall>p \<in> set (spec_candidates w version). \<not> existsSync w p)"
    have "spec_for_version w version = None" if "version \<in> set spec_versions" for version
      using that nothing_there by (intro no_override_no_candidate) blast+
    then have "spec_discovery w = None"
      by (simp add: spec_discovery_def spec_versions_def)
    with same show "findSupportedVisualStudioVersion w = None"
      by simp
  }
qed

lemma resolve_keeps_nonempty:
  "\<forall>seg \<in> set done. seg \<noteq> [] \<Longrightarrow> \<forall>seg \<in> set (resolve done segs). seg \<noteq> []"
proof (induction segs arbitrary: "done")
  case Nil
  then show ?case by simp
next
  case (Cons seg segs)
  consider "seg = [] \<or> seg = ''.''"
    | "\<not> (seg = [] \<or> seg = ''.'')" "seg = ''..'' \<and> done \<noteq> []"
    | "\<not> (seg = [] \<or> seg = ''.'')" "\<not> (seg = ''..'' \<and> done \<noteq> [])"
    by blast
  then show ?case
  proof cases
    case 1
    with Cons.IH [OF Cons.prems] show ?thesis by simp
  next
    case 2
    have "\<forall>x \<in> set (butlast done). x \<noteq> []"
      using Cons.prems by (meson in_set_butlastD)
    from Cons.IH [OF this] 2 show ?thesis by simp
  next
    case 3
    then have "\<forall>x \<in> set (done @ [seg]). x \<noteq> []"
      using Cons.prems by simp
    from Cons.IH [OF this] 3 show ?thesis by auto
  qed
qed

lemma join_with_nonempty: "segs \<noteq> [] \<Longrightarrow> hd segs \<noteq> [] \<Longrightarrow> join_with sep segs \<noteq> []"
  by (induction sep segs rule: join_with.induct) simp_all

lemma win32_join_nonempty: "win32_join parts \<noteq> []"
proof -
  let ?segs = "resolve [] (segments [] (join_with BS parts))"
  have "\<forall>seg \<in> set ?segs. seg \<noteq> []"
    by (rule resolve_keeps_nonempty) simp
  then have "?segs \<noteq> [] \<Longrightarrow> hd ?segs \<noteq> []"
    by simp
  then show ?thesis
    by (auto simp: win32_join_def Let_def dest: join_with_nonempty)
qed

lemma example_hosts_plausible:
  "plausible_host host_two_toolchains" "plausible_host host_without_toolchain"
  by (simp_all add: plausible_host_def host_two_toolchains_def host_without_toolchain_def
        host_def win32_join_nonempty win32_join_nonempty [symmetric])

theorem discovery_refines_spec_witness:
  "findSupportedVisualStudioVersion host_two_toolchains
     = Some (win32_join [''C:/PF/Microsoft Visual Studio/2022/Enterprise''])
   \<and> existsSync host_two_toolchains (win32_join [''C:/PF86/Microsoft Visual Studio/2019/Community''])
   \<and> findSupportedVisualStudioVersion host_without_toolchain = None"
proof -
  have spec: "spec_discovery host_two_toolchains
                = Some (win32_join [''C:/PF/Microsoft Visual Studio/2022/Enterprise''])"
    by code_simp
  have community:
    "existsSync host_two_toolchains (win32_join [''C:/PF86/Microsoft Visual Studio/2019/Community''])"
    by code_simp
  have none: "spec_discovery host_without_toolchain = None"
    by code_simp
  from discovery_refines_spec [OF example_hosts_plausible(1)]
       discovery_refines_spec [OF example_hosts_plausible(2)]
  show ?thesis
    by (simp only: spec community none simp_thms)
qed

section \<open>The version gates\<close>

lemma star_greedy:
  assumes "list_all p xs" and "rest = [] \<or> \<not> p (hd rest)"
  shows "\<exists>t. star p pos (xs @ rest) = (pos + length xs, rest) # t"
  using assms(1)
proof (induction xs arbitrary: pos)
  case Nil
  with assms(2) show ?case by (cases rest) auto
next
  case (Cons x xs)
  then have "p x" and "list_all p xs" by simp_all
  from Cons.IH [OF this(2), of "Suc pos"] obtain t
    where "star p (Suc pos) (xs @ rest) = (Suc pos + length xs, rest) # t" by blast
  with \<open>p x\<close> show ?case by simp
qed

lemma plus_greedy:
  assumes "list_all p xs" and "xs \<noteq> []" and "rest = [] \<or> \<not> p (hd rest)"
  shows "\<exists>t. rmatch (Plus p) (pos, xs @ rest, caps) = (pos + length xs, rest, caps) # t"
proof -
  from assms(2) obtain x xs' where xs: "xs = x # xs'" by (cases xs) auto
  with assms(1) have "p x" and "list_all p xs'" by simp_all
  from star_greedy [OF this(2) assms(3), of "Suc pos"] obtain t
    where "star p (Suc pos) (xs' @ rest) = (Suc pos + length xs', rest) # t" by blast
  with \<open>p x\<close> xs show ?thesis by simp
qed

lemma grp_first:
  assumes "rmatch r (pos, rest, caps) = (e, r', caps') # t"
  shows "\<exists>t'. rmatch (Grp n r) (pos, rest, caps) = (e, r', (n, take (e - pos) rest) # caps') # t'"
  using assms by simp

lemma number_group:
  assumes "is_number ds" and "rest = [] \<or> \<not> is_digit (hd rest)"
  shows "\<exists>t. rmatch (Grp n (Plus is_digit)) (pos, ds @ rest, caps)
               = (pos + length ds, rest, (n, ds) # caps) # t"
proof -
  from assms(1) have "list_all is_digit ds" and "ds \<noteq> []"
    by (simp_all add: is_number_def)
  from plus_greedy [OF this assms(2), of pos caps] obtain t
    where "rmatch (Plus is_digit) (pos, ds @ rest, caps) = (pos + length ds, rest, caps) # t"
    by blast
  from grp_first [OF this, of n] show ?thesis by simp
qed

lemma dot_is_no_digit: "\<not> is_digit CHR ''.''"
  by (simp add: is_digit_def)

lemma seq_step:
  assumes "\<exists>t. rmatch r1 st = m1 # t" and "\<exists>t. rmatch r2 m1 = m2 # t"
  shows "\<exists>t. rmatch (Seq r1 r2) st = m2 # t"
  using assms by auto

lemma number_group_end:
  assumes "is_number ds"
  shows "\<exists>t. rmatch (Grp n (Plus is_digit)) (pos, ds, caps)
               = (pos + length ds, [], (n, ds) # caps) # t"
  using number_group [OF assms, of "[]" n pos caps] by simp

lemma number_group_dot:
  assumes "is_number ds"
  shows "\<exists>t. rmatch (Grp n (Plus is_digit)) (pos, ds @ CHR ''.'' # rest, caps)
               = (pos + length ds, CHR ''.'' # rest, (n, ds) # caps) # t"
  using number_group [OF assms, of "CHR ''.'' # rest" n pos caps] dot_is_no_digit by simp

lemma dot_step:
  "\<exists>t. rmatch (Chr CHR ''.'') (pos, CHR ''.'' # rest, caps) = (Suc pos, rest, caps) # t"
  by (simp add: Chr_def)

lemma bol_step: "\<exists>t. rmatch Bol (0, rest, caps) = (0, rest, caps) # t"
  by simp

lemma eps_step: "\<exists>t. rmatch Eps m = m # t"
  by simp

lemma version_re_first:
  assumes "is_number a" and "is_number b" and "is_number c"
  shows "\<exists>e t. rmatch version_re (0, a @ CHR ''.'' # b @ CHR ''.'' # c, [])
                 = (e, [], [(3, c), (2, b), (1, a)]) # t"
  unfolding version_re_def seqs.simps
  apply (rule exI)
  apply (rule seq_step [OF bol_step])
  apply (rule seq_step [OF number_group_dot [OF assms(1)]])
  apply (rule seq_step [OF dot_step])
  apply (rule seq_step [OF number_group_dot [OF assms(2)]])
  apply (rule seq_step [OF dot_step])
  apply (rule seq_step [OF number_group_end [OF assms(3)]])
  apply (rule eps_step)
  done

lemma version_re_exec:
  assumes "is_number a" and "is_number b" and "is_number c"
  shows "\<exists>m. re_exec version_re (version_string a b c) = Some m
             \<and> group m 1 = Some a \<and> group m 2 = Some b \<and> group m 3 = Some c"
proof -
  from version_re_first [OF assms] obtain e t
    where first: "rmatch version_re (0, version_string a b c, [])
                    = (e, [], [(3, c), (2, b), (1, a)]) # t"
    by (auto simp: version_string_def)
  then have "re_exec version_re (version_string a b c) = Some (e, [], [(3, c), (2, b), (1, a)])"
    by (cases "version_string a b c") (simp_all add: re_exec_def)
  then show ?thesis by (simp add: group_def)
qed

lemma parseInt_number: "is_number ds \<Longrightarrow> parseInt (Some ds) = Some (decimal ds)"
  by (simp add: parseInt_def is_number_def list_all_iff takeWhile_eq_all_conv [THEN iffD2] Let_def)


lemma numbers: "is_number ''0''" "is_number ''1''" "is_number ''2''" "is_number ''9''"
  "is_number ''10''" "is_number ''13''" "is_number ''14''" "is_number ''16''" "is_number ''17''"
  "is_number ''99''"
  by (simp_all add: is_number_def is_digit_def)

lemma decimals: "decimal ''0'' = 0" "decimal ''1'' = 1" "decimal ''2'' = 2" "decimal ''9'' = 9"
  "decimal ''10'' = 10" "decimal ''13'' = 13" "decimal ''14'' = 14" "decimal ''16'' = 16"
  "decimal ''17'' = 17" "decimal ''99'' = 99"
  by (simp_all add: decimal_def digit_val_def)

text \<open>
  C4. For a version string major.minor.patch the Node gate returns normally; it sets the
  flag \<open>err\<close> (and prints the error) exactly when major < 16, or major = 16 and
  minor < 14, and it prints the warning, without touching the flag, exactly when
  major >= 17. It runs no child process.
\<close>

theorem node_gate_rule:
  assumes "is_number a" and "is_number b" and "is_number c"
    and "node_version w = version_string a b c"
  shows "fst (node_gate w s) = Ok ()
         \<and> err (snd (node_gate w s))
             = (err s \<or> decimal a < 16 \<or> (decimal a = 16 \<and> decimal b < 14))
         \<and> out (snd (node_gate w s))
             = out s
               @ (if decimal a < 16 \<or> (decimal a = 16 \<and> decimal b < 14)
                  then [ConsoleError (red ''*** Please use node.js versions >=16.14.x and <17.'')]
                  else [])
               @ (if 17 \<le> decimal a
                  then [ConsoleWarn
                          (red ''*** Warning: Versions of node.js >= 17 have not been tested.'')]
                  else [])
         \<and> calls (snd (node_gate w s)) = calls s"
proof -
  from version_re_exec [OF assms(1-3)] obtain m
    where "re_exec version_re (version_string a b c) = Some m"
      and "group m 1 = Some a" and "group m 2 = Some b" and "group m 3 = Some c"
    by blast
  with assms show ?thesis
    by (simp add: node_gate_def parseInt_number num_lt_def num_eq_def num_ge_def
          console_error_def console_warn_def Let_def)
qed

theorem node_gate_rule_witness:
  "err (snd (node_gate (host\<lparr>node_version := ''16.14.0''\<rparr>) initial)) = False
   \<and> out (snd (node_gate (host\<lparr>node_version := ''16.14.0''\<rparr>) initial)) = []
   \<and> err (snd (node_gate (host\<lparr>node_version := ''16.13.0''\<rparr>) initial)) = True
   \<and> err (snd (node_gate (host\<lparr>node_version := ''17.0.0''\<rparr>) initial)) = False
   \<and> out (snd (node_gate (host\<lparr>node_version := ''17.0.0''\<rparr>) initial))
       = [ConsoleWarn (red ''*** Warning: Versions of node.js >= 17 have not been tested.'')]"
proof -
  have v1: "node_version (host\<lparr>node_version := ''16.14.0''\<rparr>) = version_string ''16'' ''14'' ''0''"
    and v2: "node_version (host\<lparr>node_version := ''16.13.0''\<rparr>) = version_string ''16'' ''13'' ''0''"
    and v3: "node_version (host\<lparr>node_version := ''17.0.0''\<rparr>) = version_string ''17'' ''0'' ''0''"
    by (simp_all add: version_string_def)
  have start: "err initial = False" "out initial = []"
    by (simp_all add: initial_def)
  from node_gate_rule [OF numbers(8) numbers(7) numbers(1) v1, of initial]
       node_gate_rule [OF numbers(8) numbers(6) numbers(1) v2, of initial]
       node_gate_rule [OF numbers(9) numbers(1) numbers(1) v3, of initial]
  show ?thesis
    by (simp add: decimals start)
qed

text \<open>
  C5. When \<open>yarn -v\<close> succeeds and prints a version string major.minor.patch (white space
  around it is trimmed), the yarn gate returns normally and sets the flag \<open>err\<close> (and
  prints the error) exactly when the version is outside the interval from 1.10.1
  (included) to 2.0.0 (excluded).
\<close>

theorem yarn_gate_rule:
  assumes "\<not> failed (child w (calls s) (ExecSync ''yarn -v''))"
    and "trim (p_stdout (child w (calls s) (ExecSync ''yarn -v''))) = version_string a b c"
    and "is_number a" and "is_number b" and "is_number c"
  shows "fst (yarn_gate w s) = Ok ()
         \<and> err (snd (yarn_gate w s))
             = (err s \<or> \<not> in_yarn_interval (decimal a, decimal b, decimal c))
         \<and> out (snd (yarn_gate w s))
             = out s
               @ (if in_yarn_interval (decimal a, decimal b, decimal c) then []
                  else [ConsoleError (red ''*** Please use yarn >=1.10.1 and <2.'')])
         \<and> calls (snd (yarn_gate w s)) = calls s @ [ExecSync ''yarn -v'']"
proof -
  from version_re_exec [OF assms(3-5)] obtain m
    where "re_exec version_re (version_string a b c) = Some m"
      and "group m 1 = Some a" and "group m 2 = Some b" and "group m 3 = Some c"
    by blast
  with assms show ?thesis
    by (auto simp: yarn_gate_def execSync_def run_child_def parseInt_number num_lt_def
          num_eq_def num_ge_def console_error_def in_yarn_interval_def Let_def)
qed

theorem yarn_gate_rule_witness:
  "err (snd (yarn_gate (yarn_says ''1.10.0'') initial)) = True
   \<and> err (snd (yarn_gate (yarn_says ''1.10.1'') initial)) = False
   \<and> err (snd (yarn_gate (yarn_says ''1.99.9'') initial)) = False
   \<and> err (snd (yarn_gate (yarn_says ''2.0.0'') initial)) = True"
proof -
  have ok: "\<not> failed (child (yarn_says v) (calls initial) (ExecSync ''yarn -v''))" for v
    by (simp add: yarn_says_def failed_def ok_result_def)
  have v1: "trim (p_stdout (child (yarn_says ''1.10.0'') (calls initial) (ExecSync ''yarn -v'')))
              = version_string ''1'' ''10'' ''0''"
    and v2: "trim (p_stdout (child (yarn_says ''1.10.1'') (calls initial) (ExecSync ''yarn -v'')))
              = version_string ''1'' ''10'' ''1''"
    and v3: "trim (p_stdout (child (yarn_says ''1.99.9'') (calls initial) (ExecSync ''yarn -v'')))
              = version_string ''1'' ''99'' ''9''"
    and v4: "trim (p_stdout (child (yarn_says ''2.0.0'') (calls initial) (ExecSync ''yarn -v'')))
              = version_string ''2'' ''0'' ''0''"
    by code_simp+
  have start: "err initial = False"
    by (simp add: initial_def)
  from yarn_gate_rule [OF ok v1 numbers(2) numbers(5) numbers(1)]
       yarn_gate_rule [OF ok v2 numbers(2) numbers(5) numbers(2)]
       yarn_gate_rule [OF ok v3 numbers(2) numbers(10) numbers(4)]
       yarn_gate_rule [OF ok v4 numbers(3) numbers(1) numbers(1)]
  show ?thesis
    by (simp add: decimals start in_yarn_interval_def)
qed

section \<open>The invoker check, in general\<close>

lemma exec_from_None:
  "exec_from r pos s = None \<longleftrightarrow> (\<forall>k \<le> length s. rmatch r (pos + k, drop k s, []) = [])"
proof (induction s arbitrary: pos)
  case Nil
  then show ?case by (simp split: list.splits)
next
  case (Cons c cs)
  have "(\<forall>k \<le> length (c # cs). rmatch r (pos + k, drop k (c # cs), []) = [])
        \<longleftrightarrow> rmatch r (pos, c # cs, []) = []
            \<and> (\<forall>k \<le> length cs. rmatch r (Suc pos + k, drop k cs, []) = [])"
    (is "?all \<longleftrightarrow> ?here \<and> ?later")
  proof
    assume all: ?all
    from all [rule_format, of 0] have ?here by simp
    moreover have ?later
    proof (intro allI impI)
      fix k assume "k \<le> length cs"
      with all [rule_format, of "Suc k"] show "rmatch r (Suc pos + k, drop k cs, []) = []"
        by simp
    qed
    ultimately show "?here \<and> ?later" ..
  next
    assume both: "?here \<and> ?later"
    show ?all
    proof (intro allI impI)
      fix k assume "k \<le> length (c # cs)"
      with both show "rmatch r (pos + k, drop k (c # cs), []) = []"
        by (cases k) simp_all
    qed
  qed
  with Cons.IH [of "Suc pos"] show ?case
    by (simp split: list.splits)
qed

lemma star_last: "(pos, rest) \<in> set (star p pos rest)"
  by (cases rest) simp_all

lemma star_reaches: "list_all p xs \<Longrightarrow> (pos + length xs, r) \<in> set (star p pos (xs @ r))"
proof (induction xs arbitrary: pos)
  case Nil
  then show ?case by (simp add: star_last)
next
  case (Cons x xs)
  then have "p x" and "list_all p xs" by simp_all
  from Cons.IH [OF this(2), of "Suc pos"] \<open>p x\<close> show ?case by simp
qed

lemma star_member:
  "(e, r) \<in> set (star p pos rest)
     \<longleftrightarrow> (\<exists>xs. rest = xs @ r \<and> e = pos + length xs \<and> list_all p xs)"
  using star_stops [of e r p pos rest] star_reaches [of p _ pos r] by blast

lemma lit_eol:
  "rmatch (Seq (Lit l) (Seq Eol Eps)) (pos, t, caps) \<noteq> [] \<longleftrightarrow> t = l"
  by (auto simp: rmatch_Lit prefix_def)

lemma opt_c_js:
  "rmatch (Seq (Opt (\<lambda>c. c = CHR ''c'')) (Seq (Lit ''js'') (Seq Eol Eps))) (pos, t, caps) \<noteq> []
     \<longleftrightarrow> t = ''js'' \<or> t = ''cjs''"
proof -
  have "rmatch (Seq (Opt (\<lambda>c. c = CHR ''c'')) (Seq (Lit ''js'') (Seq Eol Eps))) (pos, t, caps) \<noteq> []
        \<longleftrightarrow> (\<exists>m \<in> set (rmatch (Opt (\<lambda>c. c = CHR ''c'')) (pos, t, caps)).
               rmatch (Seq (Lit ''js'') (Seq Eol Eps)) m \<noteq> [])"
    by (rule rmatch_Seq_nonempty)
  also have "\<dots> \<longleftrightarrow> t = ''js'' \<or> t = ''cjs''"
    by (cases t) (auto simp: lit_eol simp del: rmatch.simps(9))
  finally show ?thesis .
qed

lemma script_tail:
  "rmatch (Seq (Chr CHR ''.'') (Seq (Opt (\<lambda>c. c = CHR ''c'')) (Seq (Lit ''js'') (Seq Eol Eps))))
     (pos, t, caps) \<noteq> []
     \<longleftrightarrow> t = ''.js'' \<or> t = ''.cjs''"
proof -
  have "rmatch (Seq (Chr CHR ''.'') (Seq (Opt (\<lambda>c. c = CHR ''c'')) (Seq (Lit ''js'') (Seq Eol Eps))))
          (pos, t, caps) \<noteq> []
        \<longleftrightarrow> (\<exists>m \<in> set (rmatch (Chr CHR ''.'') (pos, t, caps)).
               rmatch (Seq (Opt (\<lambda>c. c = CHR ''c'')) (Seq (Lit ''js'') (Seq Eol Eps))) m \<noteq> [])"
    by (rule rmatch_Seq_nonempty)
  also have "\<dots> \<longleftrightarrow> t = ''.js'' \<or> t = ''.cjs''"
    by (cases t) (auto simp: opt_c_js Chr_def simp del: rmatch.simps(9))
  finally show ?thesis .
qed


lemma lit_member:
  "m \<in> set (rmatch (Lit l) (pos, t, caps)) \<longleftrightarrow> (\<exists>u. t = l @ u \<and> m = (pos + length l, u, caps))"
  by (auto simp: rmatch_Lit prefix_def)

lemma yarn_branch:
  "rmatch (seqs [Lit ''yarn'', Star is_word_dash_dot, Chr CHR ''.'', Opt (\<lambda>c. c = CHR ''c''),
                 Lit ''js'', Eol]) (pos, t, caps) \<noteq> []
     \<longleftrightarrow> (\<exists>suffix ext. t = ''yarn'' @ suffix @ ext \<and> list_all is_word_dash_dot suffix
                        \<and> (ext = ''.js'' \<or> ext = ''.cjs''))"
  (is "?match \<longleftrightarrow> ?shape")
proof
  assume ?match
  then obtain m1 where m1: "m1 \<in> set (rmatch (Lit ''yarn'') (pos, t, caps))"
    and rest1: "rmatch (seqs [Star is_word_dash_dot, Chr CHR ''.'', Opt (\<lambda>c. c = CHR ''c''),
                              Lit ''js'', Eol]) m1 \<noteq> []"
    unfolding seqs.simps rmatch_Seq_nonempty by blast
  from m1 obtain u where t: "t = ''yarn'' @ u" and m1_eq: "m1 = (pos + length ''yarn'', u, caps)"
    unfolding lit_member by blast
  from rest1 obtain m2 where m2: "m2 \<in> set (rmatch (Star is_word_dash_dot) m1)"
    and rest2: "rmatch (seqs [Chr CHR ''.'', Opt (\<lambda>c. c = CHR ''c''), Lit ''js'', Eol]) m2 \<noteq> []"
    unfolding seqs.simps rmatch_Seq_nonempty by blast
  from m2 m1_eq obtain e r where m2_eq: "m2 = (e, r, caps)"
    and "(e, r) \<in> set (star is_word_dash_dot (pos + length ''yarn'') u)"
    by auto
  then obtain suffix where suffix: "u = suffix @ r" "list_all is_word_dash_dot suffix"
    unfolding star_member by blast
  from rest2 m2_eq have ext: "r = ''.js'' \<or> r = ''.cjs''"
    unfolding seqs.simps by (simp only: script_tail)
  from t suffix have "t = ''yarn'' @ suffix @ r" by simp
  with suffix(2) ext show ?shape by blast
next
  assume ?shape
  then obtain suffix ext where t: "t = ''yarn'' @ suffix @ ext"
    and suffix: "list_all is_word_dash_dot suffix" and ext: "ext = ''.js'' \<or> ext = ''.cjs''"
    by blast
  let ?m1 = "(pos + length ''yarn'', suffix @ ext, caps)"
  let ?m2 = "(pos + length ''yarn'' + length suffix, ext, caps)"
  from t have m1: "?m1 \<in> set (rmatch (Lit ''yarn'') (pos, t, caps))"
    unfolding lit_member by blast
  from star_reaches [OF suffix, of "pos + length ''yarn''" ext]
  have m2: "?m2 \<in> set (rmatch (Star is_word_dash_dot) ?m1)"
    by force
  from ext have "rmatch (seqs [Chr CHR ''.'', Opt (\<lambda>c. c = CHR ''c''), Lit ''js'', Eol]) ?m2 \<noteq> []"
    unfolding seqs.simps by (simp only: script_tail)
  with m2 have "rmatch (seqs [Star is_word_dash_dot, Chr CHR ''.'', Opt (\<lambda>c. c = CHR ''c''),
                              Lit ''js'', Eol]) ?m1 \<noteq> []"
    unfolding seqs.simps(2) [of "Star is_word_dash_dot"] rmatch_Seq_nonempty by blast
  with m1 show ?match
    unfolding seqs.simps(2) [of "Lit ''yarn''"] rmatch_Seq_nonempty by blast
qed

lemma yarnpkg_branch:
  "rmatch (seqs [Lit ''yarnpkg'', Eol]) (pos, t, caps) \<noteq> [] \<longleftrightarrow> t = ''yarnpkg''"
  unfolding seqs.simps by (rule lit_eol)

lemma invoker_re_matches:
  "rmatch invoker_re (pos, t, caps) \<noteq> []
     \<longleftrightarrow> (\<exists>suffix ext. t = ''yarn'' @ suffix @ ext \<and> list_all is_word_dash_dot suffix
                        \<and> (ext = ''.js'' \<or> ext = ''.cjs''))
         \<or> t = ''yarnpkg''"
proof -
  have "rmatch invoker_re (pos, t, caps) \<noteq> []
        \<longleftrightarrow> rmatch (seqs [Lit ''yarn'', Star is_word_dash_dot, Chr CHR ''.'',
                            Opt (\<lambda>c. c = CHR ''c''), Lit ''js'', Eol]) (pos, t, caps) \<noteq> []
            \<or> rmatch (seqs [Lit ''yarnpkg'', Eol]) (pos, t, caps) \<noteq> []"
    by (simp add: invoker_re_def del: seqs.simps rmatch.simps(9))
  then show ?thesis
    by (simp only: yarn_branch yarnpkg_branch)
qed

lemma test_is_ends_in_yarn_script:
  "re_test invoker_re (Some path) \<longleftrightarrow> ends_in_yarn_script path"
proof -
  have "re_test invoker_re (Some path)
        \<longleftrightarrow> (\<exists>k \<le> length path. rmatch invoker_re (k, drop k path, []) \<noteq> [])"
    using exec_from_None [of invoker_re 0 path]
    by (auto simp: re_test_def re_exec_def toString_def)
  also have "\<dots> \<longleftrightarrow> ends_in_yarn_script path"
  proof
    assume "\<exists>k \<le> length path. rmatch invoker_re (k, drop k path, []) \<noteq> []"
    then obtain k where "rmatch invoker_re (k, drop k path, []) \<noteq> []" by blast
    then have "(\<exists>suffix ext. drop k path = ''yarn'' @ suffix @ ext
                   \<and> list_all is_word_dash_dot suffix \<and> (ext = ''.js'' \<or> ext = ''.cjs''))
               \<or> drop k path = ''yarnpkg''"
      by (simp only: invoker_re_matches)
    moreover have "path = take k path @ drop k path" by simp
    ultimately show "ends_in_yarn_script path"
      unfolding ends_in_yarn_script_def by metis
  next
    assume "ends_in_yarn_script path"
    then obtain before t where path: "path = before @ t"
      and t: "(\<exists>suffix ext. t = ''yarn'' @ suffix @ ext
                   \<and> list_all is_word_dash_dot suffix \<and> (ext = ''.js'' \<or> ext = ''.cjs''))
               \<or> t = ''yarnpkg''"
      unfolding ends_in_yarn_script_def by blast
    from t have "rmatch invoker_re (length before, t, []) \<noteq> []"
      by (simp only: invoker_re_matches)
    with path have "length before \<le> length path
                    \<and> rmatch invoker_re (length before, drop (length before) path, []) \<noteq> []"
      by simp
    then show "\<exists>k \<le> length path. rmatch invoker_re (k, drop k path, []) \<noteq> []"
      by blast
  qed
  finally show ?thesis .
qed


text \<open>
  C6. For every value of \<open>npm_execpath\<close> the invoker check passes exactly when the path
  ends in a yarn script name (\<open>yarn\<close>, any run of word characters, hyphens and dots, then
  \<open>.js\<close> or \<open>.cjs\<close>) or in \<open>yarnpkg\<close>; otherwise it sets the flag \<open>err\<close> and prints the
  error. It runs no child process.
\<close>

theorem invoker_check_rule:
  assumes "environ w ''npm_execpath'' = Some path"
  shows "err (invoker_check w s) = (err s \<or> \<not> ends_in_yarn_script path)
         \<and> out (invoker_check w s)
             = out s @ (if ends_in_yarn_script path then []
                        else [ConsoleError (red ''*** Please use yarn to install dependencies.'')])
         \<and> calls (invoker_check w s) = calls s"
  using assms test_is_ends_in_yarn_script [of path]
  by (simp add: invoker_check_def console_error_def)

theorem invoker_check_rule_witness:
  "err (invoker_check (invoked_by ''C:/x/yarn.js'') initial) = False
   \<and> err (invoker_check (invoked_by ''C:/x/yarn-1.2.3.cjs'') initial) = False
   \<and> err (invoker_check (invoked_by ''C:/x/yarnpkg'') initial) = False
   \<and> err (invoker_check (invoked_by ''C:/x/npm-cli.js'') initial) = True
   \<and> \<not> ends_in_yarn_script ''C:/x/npm-cli.js''"
proof -
  have path: "environ (invoked_by p) ''npm_execpath'' = Some p" for p
    by (simp add: invoked_by_def)
  have start: "err initial = False"
    by (simp add: initial_def)
  have "''C:/x/yarn.js'' = ''C:/x/'' @ ''yarn'' @ [] @ ''.js''"
    and "list_all is_word_dash_dot []"
    by simp_all
  then have js: "ends_in_yarn_script ''C:/x/yarn.js''"
    unfolding ends_in_yarn_script_def by blast
  have "''C:/x/yarn-1.2.3.cjs'' = ''C:/x/'' @ ''yarn'' @ ''-1.2.3'' @ ''.cjs''"
    and "list_all is_word_dash_dot ''-1.2.3''"
    by (simp_all add: is_word_dash_dot_def is_word_def)
  then have cjs: "ends_in_yarn_script ''C:/x/yarn-1.2.3.cjs''"
    unfolding ends_in_yarn_script_def by blast
  have "''C:/x/yarnpkg'' = ''C:/x/'' @ ''yarnpkg''"
    by simp
  then have pkg: "ends_in_yarn_script ''C:/x/yarnpkg''"
    unfolding ends_in_yarn_script_def by blast
  have npm: "err (invoker_check (invoked_by ''C:/x/npm-cli.js'') initial) = True"
    by code_simp
  from invoker_check_rule [OF path, of "''C:/x/yarn.js''" initial]
       invoker_check_rule [OF path, of "''C:/x/yarn-1.2.3.cjs''" initial]
       invoker_check_rule [OF path, of "''C:/x/yarnpkg''" initial]
       invoker_check_rule [OF path, of "''C:/x/npm-cli.js''" initial]
  show ?thesis
    by (simp add: js cjs pkg npm start)
qed

section \<open>Config files that lack a key\<close>

















section \<open>What the header installer runs\<close>

lemma installHeaders_tool_fails:
  assumes "c1 = SpawnSync ''yarn.cmd'' [''install''] (Some (path_join w [dirname w, ''gyp'']))"
    and "failed (child w (calls s) c1)"
  shows "installHeaders w s
           = (Ok (), (console_error ''Installing node-gyp failed''
                        (s\<lparr>calls := calls s @ [c1]\<rparr>))\<lparr>err := True\<rparr>)"
  using assms
  by (auto simp: installHeaders_def spawnSync_def run_child_def failed_def Let_def)

lemma installHeaders_listing_fails:
  assumes "c1 = SpawnSync ''yarn.cmd'' [''install''] (Some (path_join w [dirname w, ''gyp'']))"
    and "node_gyp = path_join w [dirname w, ''gyp'', ''node_modules'', ''.bin'', ''node-gyp.cmd'']"
    and "c2 = ExecFileSync node_gyp [''list'']"
    and "\<not> failed (child w (calls s) c1)"
    and "failed (child w (calls s @ [c1]) c2)"
  shows "installHeaders w s = (Throw ChildProcessError, s\<lparr>calls := calls s @ [c1, c2]\<rparr>)"
  using assms
  by (auto simp: installHeaders_def spawnSync_def execFileSync_def run_child_def failed_def
        Let_def)

lemma installHeaders_unreadable:
  assumes "c1 = SpawnSync ''yarn.cmd'' [''install''] (Some (path_join w [dirname w, ''gyp'']))"
    and "node_gyp = path_join w [dirname w, ''gyp'', ''node_modules'', ''.bin'', ''node-gyp.cmd'']"
    and "c2 = ExecFileSync node_gyp [''list'']"
    and "\<not> failed (child w (calls s) c1)"
    and "\<not> failed (child w (calls s @ [c1]) c2)"
    and "readFile w (path_join w [dirname w, ''..'', ''..'', ''.yarnrc'']) = None
         \<or> readFile w (path_join w [dirname w, ''..'', ''..'', ''remote'', ''.yarnrc'']) = None"
  shows "installHeaders w s = (Throw FsError, s\<lparr>calls := calls s @ [c1, c2]\<rparr>)"
  using assms
  by (auto simp: installHeaders_def spawnSync_def execFileSync_def run_child_def failed_def
        getHeaderInfo_def Let_def split: option.splits)

lemma installHeaders_trace:
  assumes "c1 = SpawnSync ''yarn.cmd'' [''install''] (Some (path_join w [dirname w, ''gyp'']))"
    and "node_gyp = path_join w [dirname w, ''gyp'', ''node_modules'', ''.bin'', ''node-gyp.cmd'']"
    and "c2 = ExecFileSync node_gyp [''list'']"
    and "\<not> failed (child w (calls s) c1)"
    and "\<not> failed (child w (calls s @ [c1]) c2)"
    and "versions = installedVersions (p_stdout (child w (calls s @ [c1]) c2))"
    and "getHeaderInfo w (path_join w [dirname w, ''..'', ''..'', ''.yarnrc'']) = Ok loc"
    and "getHeaderInfo w (path_join w [dirname w, ''..'', ''..'', ''remote'', ''.yarnrc'']) = Ok rem"
  shows "calls (snd (installHeaders w s))
           = calls s @ [c1, c2] @ wanted node_gyp versions loc
             @ (if all_succeed w (calls s @ [c1, c2]) (wanted node_gyp versions loc)
                then wanted node_gyp versions rem else [])
         \<and> err (snd (installHeaders w s)) = err s
         \<and> out (snd (installHeaders w s)) = out s
         \<and> (fst (installHeaders w s) = Ok ()
              \<longleftrightarrow> all_succeed w (calls s @ [c1, c2])
                    (wanted node_gyp versions loc @ wanted node_gyp versions rem))"
  using assms
  by (auto simp: installHeaders_def installIfMissing_def execFileSync_def spawnSync_def
        run_child_def wanted_def install_call_def failed_def Let_def
        split: option.splits)





text \<open>
  C8, as amended. \<open>installHeaders\<close> installs the tool, lists the installed versions and
  reads both config files before it installs any headers. If the tool install fails, the
  flag \<open>err\<close> is set and nothing else is run. If the listing fails or one of the two files
  cannot be read, an exception ends the run before any header install. Otherwise the child
  processes run next are: the install of the local spec if it is present and its target is
  not installed, and then, unless that install failed, the install of the remote spec if
  it is present and its target is not installed. Each install is one \<open>execFileSync\<close> call
  with \<open>install --dist-url\<close>, the spec's URL and its target. A failed install throws, so
  the remote install depends on the local one's success, and the local install does not
  depend on the remote one's outcome. The flag \<open>err\<close> and the output are unchanged.
\<close>

theorem installHeaders_calls:
  assumes "c1 = SpawnSync ''yarn.cmd'' [''install''] (Some (path_join w [dirname w, ''gyp'']))"
    and "node_gyp = path_join w [dirname w, ''gyp'', ''node_modules'', ''.bin'', ''node-gyp.cmd'']"
    and "c2 = ExecFileSync node_gyp [''list'']"
    and "versions = installedVersions (p_stdout (child w (calls s @ [c1]) c2))"
    and "local_rc = path_join w [dirname w, ''..'', ''..'', ''.yarnrc'']"
    and "remote_rc = path_join w [dirname w, ''..'', ''..'', ''remote'', ''.yarnrc'']"
  shows "(failed (child w (calls s) c1)
            \<longrightarrow> installHeaders w s
                = (Ok (), (console_error ''Installing node-gyp failed''
                             (s\<lparr>calls := calls s @ [c1]\<rparr>))\<lparr>err := True\<rparr>))
         \<and> (\<not> failed (child w (calls s) c1) \<and> failed (child w (calls s @ [c1]) c2)
            \<longrightarrow> installHeaders w s
                = (Throw ChildProcessError, s\<lparr>calls := calls s @ [c1, c2]\<rparr>))
         \<and> (\<not> failed (child w (calls s) c1) \<and> \<not> failed (child w (calls s @ [c1]) c2)
              \<and> (readFile w local_rc = None \<or> readFile w remote_rc = None)
            \<longrightarrow> installHeaders w s = (Throw FsError, s\<lparr>calls := calls s @ [c1, c2]\<rparr>))
         \<and> (\<forall>loc rem.
               \<not> failed (child w (calls s) c1) \<and> \<not> failed (child w (calls s @ [c1]) c2)
               \<and> getHeaderInfo w local_rc = Ok loc \<and> getHeaderInfo w remote_rc = Ok rem
               \<longrightarrow> calls (snd (installHeaders w s))
                     = calls s @ [c1, c2] @ wanted node_gyp versions loc
                       @ (if all_succeed w (calls s @ [c1, c2]) (wanted node_gyp versions loc)
                          then wanted node_gyp versions rem else [])
                   \<and> err (snd (installHeaders w s)) = err s
                   \<and> out (snd (installHeaders w s)) = out s
                   \<and> (fst (installHeaders w s) = Ok ()
                        \<longleftrightarrow> all_succeed w (calls s @ [c1, c2])
                              (wanted node_gyp versions loc @ wanted node_gyp versions rem)))"
proof (intro conjI allI impI)
  assume "failed (child w (calls s) c1)"
  with assms(1) show "installHeaders w s
                = (Ok (), (console_error ''Installing node-gyp failed''
                             (s\<lparr>calls := calls s @ [c1]\<rparr>))\<lparr>err := True\<rparr>)"
    by (rule installHeaders_tool_fails)
next
  assume "\<not> failed (child w (calls s) c1) \<and> failed (child w (calls s @ [c1]) c2)"
  with assms(1-3) show "installHeaders w s
                = (Throw ChildProcessError, s\<lparr>calls := calls s @ [c1, c2]\<rparr>)"
    by (intro installHeaders_listing_fails) simp_all
next
  assume "\<not> failed (child w (calls s) c1) \<and> \<not> failed (child w (calls s @ [c1]) c2)
              \<and> (readFile w local_rc = None \<or> readFile w remote_rc = None)"
  with assms(1-3,5,6) show "installHeaders w s = (Throw FsError, s\<lparr>calls := calls s @ [c1, c2]\<rparr>)"
    by (intro installHeaders_unreadable) simp_all
next
  fix loc rem
  assume all_ok: "\<not> failed (child w (calls s) c1) \<and> \<not> failed (child w (calls s @ [c1]) c2)
               \<and> getHeaderInfo w local_rc = Ok loc \<and> getHeaderInfo w remote_rc = Ok rem"
  then have "getHeaderInfo w (path_join w [dirname w, ''..'', ''..'', ''.yarnrc'']) = Ok loc"
    and "getHeaderInfo w (path_join w [dirname w, ''..'', ''..'', ''remote'', ''.yarnrc'']) = Ok rem"
    using assms(5,6) by simp_all
  from installHeaders_trace [OF assms(1-3) _ _ assms(4) this] all_ok
  show "calls (snd (installHeaders w s))
                     = calls s @ [c1, c2] @ wanted node_gyp versions loc
                       @ (if all_succeed w (calls s @ [c1, c2]) (wanted node_gyp versions loc)
                          then wanted node_gyp versions rem else [])"
    and "err (snd (installHeaders w s)) = err s"
    and "out (snd (installHeaders w s)) = out s"
    and "fst (installHeaders w s) = Ok ()
                        \<longleftrightarrow> all_succeed w (calls s @ [c1, c2])
                              (wanted node_gyp versions loc @ wanted node_gyp versions rem)"
    by simp_all
qed

theorem installHeaders_calls_witness:
  "calls (snd (installHeaders host initial))
     = [SpawnSync ''yarn.cmd'' [''install''] (Some (win32_join [''C:/vscode/build/npm/gyp''])),
        ExecFileSync (win32_join [''C:/vscode/build/npm/gyp/node_modules/.bin/node-gyp.cmd''])
          [''list''],
        ExecFileSync (win32_join [''C:/vscode/build/npm/gyp/node_modules/.bin/node-gyp.cmd''])
          [''install'', ''--dist-url'', ''https://example/remote'', ''12.0.0'']]
   \<and> installHeaders host_without_local_rc initial
     = (Throw FsError,
        \<lparr>err = False, out = [],
         calls = [SpawnSync ''yarn.cmd'' [''install'']
                    (Some (win32_join [''C:/vscode/build/npm/gyp''])),
                  ExecFileSync
                    (win32_join [''C:/vscode/build/npm/gyp/node_modules/.bin/node-gyp.cmd''])
                    [''list'']]\<rparr>)"
proof -
  let ?gyp = "win32_join [''C:/vscode/build/npm/gyp/node_modules/.bin/node-gyp.cmd'']"
  let ?c1 = "SpawnSync ''yarn.cmd'' [''install''] (Some (win32_join [''C:/vscode/build/npm/gyp'']))"
  let ?c2 = "ExecFileSync ?gyp [''list'']"
  let ?loc = "\<lparr>disturl = ''https://example/dist'', target = ''10.0.0''\<rparr>"
  let ?rem = "\<lparr>disturl = ''https://example/remote'', target = ''12.0.0''\<rparr>"
  have c1: "?c1 = SpawnSync ''yarn.cmd'' [''install''] (Some (path_join host [dirname host, ''gyp'']))"
    by code_simp
  have gyp: "?gyp = path_join host [dirname host, ''gyp'', ''node_modules'', ''.bin'', ''node-gyp.cmd'']"
    by code_simp
  have ok1: "\<not> failed (child host (calls initial) ?c1)"
    by code_simp
  have ok2: "\<not> failed (child host (calls initial @ [?c1]) ?c2)"
    by code_simp
  have listed: "{''10.0.0'', []} = installedVersions (p_stdout (child host (calls initial @ [?c1]) ?c2))"
    by code_simp
  have loc: "getHeaderInfo host (path_join host [dirname host, ''..'', ''..'', ''.yarnrc'']) = Ok (Some ?loc)"
    by code_simp
  have rem: "getHeaderInfo host (path_join host [dirname host, ''..'', ''..'', ''remote'', ''.yarnrc''])
               = Ok (Some ?rem)"
    by code_simp
  let ?h = host_without_local_rc
  have c1': "?c1 = SpawnSync ''yarn.cmd'' [''install''] (Some (path_join ?h [dirname ?h, ''gyp'']))"
    by code_simp
  have gyp': "?gyp = path_join ?h [dirname ?h, ''gyp'', ''node_modules'', ''.bin'', ''node-gyp.cmd'']"
    by code_simp
  have ok1': "\<not> failed (child ?h (calls initial) ?c1)"
    by code_simp
  have ok2': "\<not> failed (child ?h (calls initial @ [?c1]) ?c2)"
    by code_simp
  have gone: "readFile ?h (path_join ?h [dirname ?h, ''..'', ''..'', ''.yarnrc'']) = None"
    by code_simp
  have start: "calls initial = []" "initial\<lparr>calls := [?c1, ?c2]\<rparr> = \<lparr>err = False, out = [], calls = [?c1, ?c2]\<rparr>"
    by (simp_all add: initial_def)
  from installHeaders_calls [OF c1 gyp refl listed refl refl, THEN conjunct2, THEN conjunct2,
         THEN conjunct2, rule_format, of "Some ?loc" "Some ?rem"] ok1 ok2 loc rem
  have first: "calls (snd (installHeaders host initial)) = [?c1, ?c2, install_call ?gyp ?rem]"
    by (simp add: wanted_def install_call_def start)
  from installHeaders_calls [OF c1' gyp' refl refl refl refl, THEN conjunct2, THEN conjunct2,
         THEN conjunct1] ok1' ok2' gone
  have second: "installHeaders ?h initial = (Throw FsError, initial\<lparr>calls := calls initial @ [?c1, ?c2]\<rparr>)"
    by simp
  from first second show ?thesis
    by (simp add: install_call_def start)
qed

text \<open>
  The claim as it stands fails where the local install fails: the remote spec is present,
  its target 12.0.0 is not installed, and yet no install is run for it.
\<close>

theorem remote_install_counterexample:
  "getHeaderInfo host_local_install_fails
     (path_join host_local_install_fails
        [dirname host_local_install_fails, ''..'', ''..'', ''remote'', ''.yarnrc''])
     = Ok (Some \<lparr>disturl = ''https://example/remote'', target = ''12.0.0''\<rparr>)
   \<and> ''12.0.0'' \<notin> installedVersions
        (''gyp info it worked if it ends with ok'' @ [LF] @ ''10.0.0'' @ [LF])
   \<and> calls (snd (installHeaders host_local_install_fails initial))
     = [SpawnSync ''yarn.cmd'' [''install''] (Some (win32_join [''C:/vscode/build/npm/gyp''])),
        ExecFileSync (win32_join [''C:/vscode/build/npm/gyp/node_modules/.bin/node-gyp.cmd''])
          [''list''],
        ExecFileSync (win32_join [''C:/vscode/build/npm/gyp/node_modules/.bin/node-gyp.cmd''])
          [''install'', ''--dist-url'', ''https://example/dist'', ''11.0.0'']]
   \<and> fst (installHeaders host_local_install_fails initial) = Throw ChildProcessError"
  by code_simp

end
